theory Spec2Isabelle
  imports Main
begin

section \<open>JavaScript strings and regular expressions\<close>

text \<open>
  Strings are lists of characters; the model covers ASCII text. The character classes
  are those of the regular expressions in the source (\<open>[0-9]\<close>, \<open>[a-z]\<close>, \<open>[A-Z]\<close>, \<open>\w\<close>),
  the white space \<open>trim\<close> removes, and the line terminators \<open>.\<close> excludes.
\<close>

definition is_digit :: "char \<Rightarrow> bool" where
  "is_digit c = (48 \<le> (of_char c :: nat) \<and> (of_char c :: nat) \<le> 57)"

definition is_lower :: "char \<Rightarrow> bool" where
  "is_lower c = (97 \<le> (of_char c :: nat) \<and> (of_char c :: nat) \<le> 122)"

definition is_upper :: "char \<Rightarrow> bool" where
  "is_upper c = (65 \<le> (of_char c :: nat) \<and> (of_char c :: nat) \<le> 90)"

definition is_word :: "char \<Rightarrow> bool" where
  "is_word c = (is_lower c \<or> is_upper c \<or> is_digit c \<or> c = CHR ''_'')"

definition is_space :: "char \<Rightarrow> bool" where
  "is_space c = (c = CHR '' '' \<or> (9 \<le> (of_char c :: nat) \<and> (of_char c :: nat) \<le> 13))"

definition is_line_terminator :: "char \<Rightarrow> bool" where
  "is_line_terminator c = (c = CHR 0x0A \<or> c = CHR 0x0D)"

text \<open>An upper-case ASCII letter becomes lower case by setting bit 5 (adding 32).\<close>

definition lower_char :: "char \<Rightarrow> char" where
  "lower_char c =
     (if is_upper c
      then (case c of Char b0 b1 b2 b3 b4 b5 b6 b7 \<Rightarrow> Char b0 b1 b2 b3 b4 True b6 b7)
      else c)"

definition toLowerCase :: "string \<Rightarrow> string" where
  "toLowerCase s = map lower_char s"

definition trim :: "string \<Rightarrow> string" where
  "trim s = rev (dropWhile is_space (rev (dropWhile is_space s)))"

text \<open>\<open>String.prototype.startsWith\<close> and \<open>split\<close> with a one-character separator.\<close>

definition startsWith :: "string \<Rightarrow> string \<Rightarrow> bool" where
  "startsWith s p = (take (length p) s = p)"

fun split :: "char \<Rightarrow> string \<Rightarrow> string list" where
  "split c [] = [[]]"
| "split c (x # xs) =
     (if x = c then [] # split c xs
      else (case split c xs of [] \<Rightarrow> [[x]] | w # ws \<Rightarrow> (x # w) # ws))"

text \<open>\<open>xs[i]\<close>: \<open>undefined\<close> out of range.\<close>

fun index :: "'a list \<Rightarrow> nat \<Rightarrow> 'a option" where
  "index [] i = None"
| "index (x # xs) 0 = Some x"
| "index (x # xs) (Suc i) = index xs i"

text \<open>
  Regular expressions, matched by derivatives. \<open>matches r s\<close> is the test of an
  anchored pattern \<open>/^r$/\<close> on \<open>s\<close> (no flags: \<open>$\<close> is the end of the input).
\<close>

datatype rexp = Zero | One | Atom "char \<Rightarrow> bool" | Alt rexp rexp | Seq rexp rexp | Star rexp

fun nullable :: "rexp \<Rightarrow> bool" where
  "nullable Zero = False"
| "nullable One = True"
| "nullable (Atom p) = False"
| "nullable (Alt r s) = (nullable r \<or> nullable s)"
| "nullable (Seq r s) = (nullable r \<and> nullable s)"
| "nullable (Star r) = True"

fun deriv :: "char \<Rightarrow> rexp \<Rightarrow> rexp" where
  "deriv c Zero = Zero"
| "deriv c One = Zero"
| "deriv c (Atom p) = (if p c then One else Zero)"
| "deriv c (Alt r s) = Alt (deriv c r) (deriv c s)"
| "deriv c (Seq r s) =
     (if nullable r then Alt (Seq (deriv c r) s) (deriv c s) else Seq (deriv c r) s)"
| "deriv c (Star r) = Seq (deriv c r) (Star r)"

fun matches :: "rexp \<Rightarrow> string \<Rightarrow> bool" where
  "matches r [] = nullable r"
| "matches r (c # cs) = matches (deriv c r) cs"

text \<open>
  The words of a regular expression, as a reference for the matcher (lemma
  \<open>matches_in_lang\<close> below).
\<close>

inductive in_lang :: "rexp \<Rightarrow> string \<Rightarrow> bool" where
  empty: "in_lang One []"
| single: "p c \<Longrightarrow> in_lang (Atom p) [c]"
| left: "in_lang r w \<Longrightarrow> in_lang (Alt r t) w"
| right: "in_lang t w \<Longrightarrow> in_lang (Alt r t) w"
| both: "in_lang r u \<Longrightarrow> in_lang t v \<Longrightarrow> in_lang (Seq r t) (u @ v)"
| none: "in_lang (Star r) []"
| more: "in_lang r u \<Longrightarrow> in_lang (Star r) v \<Longrightarrow> in_lang (Star r) (u @ v)"

text \<open>\<open>r{n}\<close>, \<open>r?\<close> and \<open>r+\<close>.\<close>

fun rep :: "nat \<Rightarrow> rexp \<Rightarrow> rexp" where
  "rep 0 r = One"
| "rep (Suc n) r = Seq r (rep n r)"

definition opt :: "rexp \<Rightarrow> rexp" where
  "opt r = Alt One r"

definition plus :: "rexp \<Rightarrow> rexp" where
  "plus r = Seq r (Star r)"

text \<open>
  A lookahead \<open>(?=r)\<close> at the start of the input: some prefix of the input matches \<open>r\<close>.
\<close>

definition lookahead :: "rexp \<Rightarrow> string \<Rightarrow> bool" where
  "lookahead r s = matches (Seq r (Star (Atom (\<lambda>c. True)))) s"

text \<open>\<open>/^[0-9]{n}$/\<close>: the phone number (\<open>n = 10\<close>) and the zip code (\<open>n = 6\<close>).\<close>

definition digits_pattern :: "nat \<Rightarrow> rexp" where
  "digits_pattern n = rep n (Atom is_digit)"

text \<open>\<open>/^\w+([\.-]?\w+)*@\w+([\.-]?\w+)*(\.\w{2,3})+$/\<close>, the \<open>match\<close> of the schema's email.\<close>

definition email_pattern :: rexp where
  "email_pattern =
     Seq (plus (Atom is_word))
    (Seq (Star (Seq (opt (Atom (\<lambda>c. c = CHR ''.'' \<or> c = CHR ''-''))) (plus (Atom is_word))))
    (Seq (Atom (\<lambda>c. c = CHR ''@''))
    (Seq (plus (Atom is_word))
    (Seq (Star (Seq (opt (Atom (\<lambda>c. c = CHR ''.'' \<or> c = CHR ''-''))) (plus (Atom is_word))))
         (plus (Seq (Atom (\<lambda>c. c = CHR ''.''))
                (Seq (Atom is_word) (Seq (Atom is_word) (opt (Atom is_word))))))))))"

text \<open>\<open>/^(?=.*[a-z])(?=.*[A-Z])(?=.*\d)/\<close>, the password rule of the registration chain.\<close>

definition password_pattern :: "string \<Rightarrow> bool" where
  "password_pattern s =
     (lookahead (Seq (Star (Atom (\<lambda>c. \<not> is_line_terminator c))) (Atom is_lower)) s
      \<and> lookahead (Seq (Star (Atom (\<lambda>c. \<not> is_line_terminator c))) (Atom is_upper)) s
      \<and> lookahead (Seq (Star (Atom (\<lambda>c. \<not> is_line_terminator c))) (Atom is_digit)) s)"

section \<open>Values of the HTTP layer\<close>

text \<open>
  A JavaScript \<open>Date\<close>, reduced to the calendar fields the code reads (\<open>getFullYear\<close>)
  in the server's time zone. The time of day plays no role in the code.
\<close>

record jsdate =
  year :: int
  month :: nat
  day :: nat

text \<open>
  The object handed to \<open>res.json\<close>. A key whose value is \<open>undefined\<close> is dropped by
  the serialiser, so it is simply not in the list of an object.
\<close>

datatype json =
  JBool bool
  | JStr string
  | JDate jsdate
  | JArr "json list"
  | JObj "(string \<times> json) list"

record response =
  status :: nat
  json_body :: json

text \<open>A thrown JavaScript error: the properties the handlers read.\<close>

record js_error =
  err_name :: string
  err_message :: string
  statusCode :: "nat option"
  stack :: "string option"

datatype 'a attempt = Returns 'a | Throws js_error

text \<open>One failure of the express-validator chain, as listed by \<open>errors.array()\<close>.\<close>

record verror =
  path :: string
  msg :: string

section \<open>The User model (models/User.js)\<close>

type_synonym object_id = string

record address =
  street :: string
  city :: string
  state :: string
  zipCode :: string

text \<open>
  A loaded document. \<open>password\<close> is \<open>None\<close> when the query did not select it
  (the schema declares \<open>select: false\<close>).
\<close>

record user =
  uid :: object_id
  name :: string
  email :: string
  password :: "string option"
  phone :: string
  dateOfBirth :: jsdate
  address :: address
  role :: string
  commissionRate :: int
  assignedCustomers :: "object_id list"
  isActive :: bool
  createdAt :: jsdate
  updatedAt :: jsdate

datatype projection = DefaultFields | PlusPassword | MinusPassword

text \<open>The body of \<open>POST /register\<close> and of \<open>POST /login\<close>.\<close>

record reg_body =
  rb_name :: string
  rb_email :: string
  rb_password :: string
  rb_phone :: string
  rb_dateOfBirth :: string
  rb_address :: address
  rb_role :: "string option"

record login_body =
  lb_email :: string
  lb_password :: string

text \<open>
  A request as a controller sees it: the body after the validation chain has run, and
  what \<open>validationResult(req)\<close> lists.
\<close>

record 'b request =
  validation_errors :: "verror list"
  req_body :: 'b

text \<open>
  Calls a handler makes to its collaborators, in order. A handler returns this log
  beside its result, so that "never invoked" is a statement about the log.
\<close>

datatype call =
  JwtVerify string
  | JwtSign object_id
  | FindOne string projection
  | FindById object_id projection
  | Create reg_body
  | BcryptCompare string "string option"
  | BcryptGenSalt nat
  | BcryptHash "string option" string
  | NextCalled

record jwt_payload =
  payload_id :: object_id
  iat :: nat
  exp :: nat

text \<open>
  The libraries and the process state outside the repository: validator.js (behind
  express-validator), the JavaScript \<open>Date\<close>, bcryptjs, jsonwebtoken, the ObjectId
  generator and the environment variables. They are parameters of the code.
\<close>

record libs =
  isEmail :: "string \<Rightarrow> bool"
  normalizeEmail :: "string \<Rightarrow> string"
  isDate :: "string \<Rightarrow> bool"
  newDate :: "string \<Rightarrow> jsdate option"
  today :: jsdate
  bcrypt_genSalt :: "nat \<Rightarrow> string attempt"
  bcrypt_hash :: "string option \<Rightarrow> string \<Rightarrow> string attempt"
  bcrypt_compare :: "string \<Rightarrow> string option \<Rightarrow> bool attempt"
  jwt_sign :: "object_id \<Rightarrow> string option \<Rightarrow> string option \<Rightarrow> string attempt"
  jwt_verify :: "string \<Rightarrow> string option \<Rightarrow> jwt_payload attempt"
  new_ObjectId :: "nat \<Rightarrow> object_id"
  JWT_SECRET :: "string option"
  JWT_EXPIRE :: "string option"
  NODE_ENV :: "string option"

text \<open>
  What a handler is given: the queries of the mongoose model over a store state \<open>'s\<close>
  (each may throw), and the libraries.
\<close>

record 's deps =
  db_findOne :: "'s \<Rightarrow> string \<Rightarrow> projection \<Rightarrow> user option attempt"
  db_findById :: "'s \<Rightarrow> object_id \<Rightarrow> projection \<Rightarrow> user option attempt"
  db_create :: "'s \<Rightarrow> reg_body \<Rightarrow> (user \<times> 's) attempt"
  lib :: libs

subsection \<open>The pre-save hook and comparePassword\<close>

text \<open>A document being saved: its fields and the paths mongoose has marked modified.\<close>

record document =
  doc :: user
  modified :: "string list"

definition isModified :: "document \<Rightarrow> string \<Rightarrow> bool" where
  "isModified d p = (p \<in> set (modified d))"

text \<open>
  \<open>userSchema.pre('save', async function (next) {...})\<close>. The body, statement by
  statement: the guard calls \<open>next()\<close> and falls through (there is no \<open>return\<close>), then
  the salt is drawn, the password field is hashed and assigned, and \<open>next()\<close> is called.
  The result is the document after the body, the calls in order, and the error the
  async function rejects with, if any.
\<close>

definition pre_save ::
  "(nat \<Rightarrow> string attempt) \<Rightarrow> (string option \<Rightarrow> string \<Rightarrow> string attempt) \<Rightarrow> document
    \<Rightarrow> document \<times> call list \<times> js_error option" where
  "pre_save genSalt hash d =
    (let skipped = (if \<not> isModified d ''password'' then [NextCalled] else [])
     in case genSalt 10 of
          Throws e \<Rightarrow> (d, skipped @ [BcryptGenSalt 10], Some e)
        | Returns salt \<Rightarrow>
            (case hash (password (doc d)) salt of
               Throws e \<Rightarrow>
                 (d, skipped @ [BcryptGenSalt 10, BcryptHash (password (doc d)) salt], Some e)
             | Returns h \<Rightarrow>
                 (d\<lparr>doc := (doc d)\<lparr>password := Some h\<rparr>,
                    modified := List.insert ''password'' (modified d)\<rparr>,
                  skipped @ [BcryptGenSalt 10, BcryptHash (password (doc d)) salt, NextCalled],
                  None)))"

text \<open>\<open>userSchema.methods.comparePassword\<close>: \<open>bcrypt.compare(enteredPassword, this.password)\<close>.\<close>

definition comparePassword :: "'s deps \<Rightarrow> user \<Rightarrow> string \<Rightarrow> bool attempt" where
  "comparePassword D u enteredPassword = bcrypt_compare (lib D) enteredPassword (password u)"

subsection \<open>The schema: setters, validators, and the queries of the model\<close>

text \<open>
  The mongoose model \<open>User\<close> over a store that is the list of the saved documents.
  The options are those of the schema in the source; what mongoose does with them
  follows its documentation: the string setters (\<open>lowercase: true\<close>, \<open>trim: true\<close>)
  run when a document is built and when a query filter is cast, the validators run
  before the pre-save hook, and the hook runs before the insert.
\<close>

definition set_email :: "string \<Rightarrow> string" where
  "set_email e = trim (toLowerCase e)"

definition check :: "bool \<Rightarrow> 'a \<Rightarrow> 'a list" where
  "check ok e = (if ok then [] else [e])"

definition required_message :: "string \<Rightarrow> string" where
  "required_message p = ''Path '' @ [CHR 0x60] @ p @ [CHR 0x60] @ '' is required.''"

text \<open>
  The validators of the schema on a document, as (path, message) pairs. \<open>required\<close> on a
  string asks for a non-empty one; \<open>match\<close> lets the empty string pass.
\<close>

definition schema_errors :: "user \<Rightarrow> (string \<times> string) list" where
  "schema_errors u =
     check (name u \<noteq> []) (''name'', ''Please add a name'')
     @ check (email u \<noteq> []) (''email'', ''Please add an email'')
     @ check (email u = [] \<or> matches email_pattern (email u)) (''email'', ''Please add a valid email'')
     @ (case password u of
          None \<Rightarrow> [(''password'', ''Please add a password'')]
        | Some p \<Rightarrow>
            check (p \<noteq> []) (''password'', ''Please add a password'')
            @ check (6 \<le> length p) (''password'', ''Password must be at least 6 characters''))
     @ check (phone u \<noteq> []) (''phone'', ''Please add a phone number'')
     @ check (phone u = [] \<or> matches (digits_pattern 10) (phone u))
         (''phone'', ''Please add a valid 10-digit phone number'')
     @ check (street (address u) \<noteq> []) (''address.street'', required_message ''address.street'')
     @ check (city (address u) \<noteq> []) (''address.city'', required_message ''address.city'')
     @ check (state (address u) \<noteq> []) (''address.state'', required_message ''address.state'')
     @ check (zipCode (address u) \<noteq> []) (''address.zipCode'', required_message ''address.zipCode'')
     @ check (role u \<in> set [''customer'', ''agent'', ''admin''])
         (''role'', [CHR 0x60] @ role u @ [CHR 0x60] @ '' is not a valid enum value for path ''
                    @ [CHR 0x60] @ ''role'' @ [CHR 0x60] @ ''.'')
     @ check (0 \<le> commissionRate u) (''commissionRate'', ''Path commissionRate is less than minimum allowed value (0).'')
     @ check (commissionRate u \<le> 100) (''commissionRate'', ''Path commissionRate is more than maximum allowed value (100).'')"

text \<open>\<open>Array.prototype.join\<close>.\<close>

fun join :: "string \<Rightarrow> string list \<Rightarrow> string" where
  "join sep [] = []"
| "join sep [x] = x"
| "join sep (x # y # ys) = x @ sep @ join sep (y # ys)"

definition validation_error :: "(string \<times> string) list \<Rightarrow> js_error" where
  "validation_error es =
     \<lparr>err_name = ''ValidationError'',
      err_message = ''User validation failed: '' @ join '', '' (map (\<lambda>(p, m). p @ '': '' @ m) es),
      statusCode = None, stack = None\<rparr>"

definition duplicate_key_error :: js_error where
  "duplicate_key_error =
     \<lparr>err_name = ''MongoServerError'', err_message = ''E11000 duplicate key error'',
      statusCode = None, stack = None\<rparr>"

text \<open>What a query hands out of a stored document under a projection.\<close>

definition select :: "projection \<Rightarrow> user \<Rightarrow> user" where
  "select p u = (case p of PlusPassword \<Rightarrow> u | DefaultFields \<Rightarrow> u\<lparr>password := None\<rparr>
                 | MinusPassword \<Rightarrow> u\<lparr>password := None\<rparr>)"

definition store_findOne :: "user list \<Rightarrow> string \<Rightarrow> projection \<Rightarrow> user option attempt" where
  "store_findOne st e p = Returns (map_option (select p) (find (\<lambda>u. email u = set_email e) st))"

definition store_findById :: "user list \<Rightarrow> object_id \<Rightarrow> projection \<Rightarrow> user option attempt" where
  "store_findById st i p = Returns (map_option (select p) (find (\<lambda>u. uid u = i) st))"

text \<open>
  \<open>User.create\<close>: the document is built from the input (casts, setters, defaults),
  validated against the schema, passed through the pre-save hook and inserted; the
  unique index on \<open>email\<close> refuses a second document with the same address.
\<close>

definition store_create :: "libs \<Rightarrow> user list \<Rightarrow> reg_body \<Rightarrow> (user \<times> user list) attempt" where
  "store_create L st input =
     (case newDate L (rb_dateOfBirth input) of
        None \<Rightarrow> Throws (validation_error [(''dateOfBirth'', ''Cast to date failed'')])
      | Some born \<Rightarrow>
          (let u = \<lparr>uid = new_ObjectId L (length st),
                    name = trim (rb_name input),
                    email = set_email (rb_email input),
                    password = Some (rb_password input),
                    phone = rb_phone input,
                    dateOfBirth = born,
                    address = rb_address input,
                    role = (case rb_role input of None \<Rightarrow> ''customer'' | Some r \<Rightarrow> r),
                    commissionRate = 0,
                    assignedCustomers = [],
                    isActive = True,
                    createdAt = today L,
                    updatedAt = today L\<rparr>
           in if schema_errors u \<noteq> [] then Throws (validation_error (schema_errors u))
              else
                (case pre_save (bcrypt_genSalt L) (bcrypt_hash L)
                        \<lparr>doc = u,
                         modified = [''name'', ''email'', ''password'', ''phone'', ''dateOfBirth'',
                                     ''address'', ''role'']\<rparr> of
                   (d, cs, Some e) \<Rightarrow> Throws e
                 | (d, cs, None) \<Rightarrow>
                     if list_ex (\<lambda>v. email v = email (doc d)) st then Throws duplicate_key_error
                     else Returns (doc d, st @ [doc d]))))"

definition memory_deps :: "libs \<Rightarrow> user list deps" where
  "memory_deps L =
     \<lparr>db_findOne = store_findOne, db_findById = store_findById,
      db_create = store_create L, lib = L\<rparr>"

section \<open>utils/generateToken.js\<close>

definition generateToken :: "'s deps \<Rightarrow> object_id \<Rightarrow> string attempt" where
  "generateToken D userId = jwt_sign (lib D) userId (JWT_SECRET (lib D)) (JWT_EXPIRE (lib D))"

section \<open>middlewares/authMiddleware.js\<close>

text \<open>The outcome of a middleware: a response was sent, or \<open>req.user\<close> is set and \<open>next()\<close> ran.\<close>

datatype outcome = Reject response | Proceed user

definition fail_json :: "string \<Rightarrow> json" where
  "fail_json m = JObj [(''success'', JBool False), (''message'', JStr m)]"

definition error_json :: "string \<Rightarrow> js_error \<Rightarrow> json" where
  "error_json m e =
     JObj [(''success'', JBool False), (''message'', JStr m), (''error'', JStr (err_message e))]"

text \<open>Lines 16-23 of \<open>protect\<close>: the value of \<open>token\<close> after the first \<open>if\<close>.\<close>

definition header_token :: "string option \<Rightarrow> string option" where
  "header_token authorization =
     (case authorization of
        None \<Rightarrow> None
      | Some h \<Rightarrow>
          if h \<noteq> [] \<and> startsWith h ''Bearer'' then index (split CHR '' '' h) 1 else None)"

text \<open>The \<open>catch\<close> block of \<open>protect\<close>.\<close>

definition protect_catch :: "js_error \<Rightarrow> response" where
  "protect_catch e =
     (if err_name e = ''JsonWebTokenError'' then
        \<lparr>status = 401, json_body = fail_json ''Invalid token''\<rparr>
      else if err_name e = ''TokenExpiredError'' then
        \<lparr>status = 401, json_body = fail_json ''Token expired, please login again''\<rparr>
      else \<lparr>status = 500, json_body = error_json ''Server error in authentication'' e\<rparr>)"

definition protect :: "'s deps \<Rightarrow> 's \<Rightarrow> string option \<Rightarrow> outcome \<times> call list" where
  "protect D s authorization =
     (case header_token authorization of
        None \<Rightarrow>
          (Reject \<lparr>status = 401, json_body = fail_json ''Not authorized, no token provided''\<rparr>, [])
      | Some token \<Rightarrow>
          if token = [] then
            (Reject \<lparr>status = 401, json_body = fail_json ''Not authorized, no token provided''\<rparr>, [])
          else
            (case jwt_verify (lib D) token (JWT_SECRET (lib D)) of
               Throws e \<Rightarrow> (Reject (protect_catch e), [JwtVerify token])
             | Returns decoded \<Rightarrow>
                 (case db_findById D s (payload_id decoded) MinusPassword of
                    Throws e \<Rightarrow>
                      (Reject (protect_catch e),
                       [JwtVerify token, FindById (payload_id decoded) MinusPassword])
                  | Returns None \<Rightarrow>
                      (Reject \<lparr>status = 401, json_body = fail_json ''User not found''\<rparr>,
                       [JwtVerify token, FindById (payload_id decoded) MinusPassword])
                  | Returns (Some u) \<Rightarrow>
                      if \<not> isActive u then
                        (Reject \<lparr>status = 401, json_body = fail_json ''Account is deactivated''\<rparr>,
                         [JwtVerify token, FindById (payload_id decoded) MinusPassword])
                      else
                        (Proceed u,
                         [JwtVerify token, FindById (payload_id decoded) MinusPassword,
                          NextCalled]))))"

definition authorize :: "string list \<Rightarrow> user \<Rightarrow> outcome" where
  "authorize roles u =
     (if role u \<notin> set roles then
        Reject \<lparr>status = 403,
          json_body = fail_json (''User role '' @ [CHR 0x27] @ role u @ [CHR 0x27]
                                 @ '' is not authorized to access this route'')\<rparr>
      else Proceed u)"

section \<open>controllers/authController.js\<close>

text \<open>
  An entry of \<open>errors.array()\<close> in the response; of the keys express-validator writes,
  the message and the field are kept.
\<close>

definition verror_json :: "verror \<Rightarrow> json" where
  "verror_json e = JObj [(''msg'', JStr (msg e)), (''path'', JStr (path e))]"

definition address_json :: "address \<Rightarrow> json" where
  "address_json a =
     JObj [(''street'', JStr (street a)), (''city'', JStr (city a)),
           (''state'', JStr (state a)), (''zipCode'', JStr (zipCode a))]"

text \<open>\<open>role || 'customer'\<close>: an absent or empty role is falsy.\<close>

definition role_or_customer :: "string option \<Rightarrow> string" where
  "role_or_customer r = (case r of None \<Rightarrow> ''customer'' | Some x \<Rightarrow> if x = [] then ''customer'' else x)"

definition registerUser ::
  "'s deps \<Rightarrow> 's \<Rightarrow> reg_body request \<Rightarrow> response \<times> call list \<times> 's" where
  "registerUser D s req =
     (if validation_errors req \<noteq> [] then
        (\<lparr>status = 400,
          json_body = JObj [(''success'', JBool False),
                            (''errors'', JArr (map verror_json (validation_errors req)))]\<rparr>,
         [], s)
      else
        (case db_findOne D s (rb_email (req_body req)) DefaultFields of
           Throws e \<Rightarrow>
             (\<lparr>status = 500, json_body = error_json ''Server error during registration'' e\<rparr>,
              [FindOne (rb_email (req_body req)) DefaultFields], s)
         | Returns (Some userExists) \<Rightarrow>
             (\<lparr>status = 400, json_body = fail_json ''User already exists with this email''\<rparr>,
              [FindOne (rb_email (req_body req)) DefaultFields], s)
         | Returns None \<Rightarrow>
             (let input = (req_body req)\<lparr>rb_role := Some (role_or_customer (rb_role (req_body req)))\<rparr>
              in case db_create D s input of
                   Throws e \<Rightarrow>
                     (\<lparr>status = 500,
                       json_body = error_json ''Server error during registration'' e\<rparr>,
                      [FindOne (rb_email (req_body req)) DefaultFields, Create input], s)
                 | Returns (u, s') \<Rightarrow>
                     (case generateToken D (uid u) of
                        Throws e \<Rightarrow>
                          (\<lparr>status = 500,
                            json_body = error_json ''Server error during registration'' e\<rparr>,
                           [FindOne (rb_email (req_body req)) DefaultFields, Create input,
                            JwtSign (uid u)], s')
                      | Returns token \<Rightarrow>
                          (\<lparr>status = 201,
                            json_body =
                              JObj [(''success'', JBool True),
                                    (''message'', JStr ''User registered successfully''),
                                    (''token'', JStr token),
                                    (''user'',
                                     JObj [(''id'', JStr (uid u)), (''name'', JStr (name u)),
                                           (''email'', JStr (email u)),
                                           (''role'', JStr (role u))])]\<rparr>,
                           [FindOne (rb_email (req_body req)) DefaultFields, Create input,
                            JwtSign (uid u)], s')))))"

definition loginUser :: "'s deps \<Rightarrow> 's \<Rightarrow> login_body request \<Rightarrow> response \<times> call list" where
  "loginUser D s req =
     (if validation_errors req \<noteq> [] then
        (\<lparr>status = 400,
          json_body = JObj [(''success'', JBool False),
                            (''errors'', JArr (map verror_json (validation_errors req)))]\<rparr>,
         [])
      else
        (case db_findOne D s (lb_email (req_body req)) PlusPassword of
           Throws e \<Rightarrow>
             (\<lparr>status = 500, json_body = error_json ''Server error during login'' e\<rparr>,
              [FindOne (lb_email (req_body req)) PlusPassword])
         | Returns None \<Rightarrow>
             (\<lparr>status = 401, json_body = fail_json ''Invalid email or password''\<rparr>,
              [FindOne (lb_email (req_body req)) PlusPassword])
         | Returns (Some u) \<Rightarrow>
             if \<not> isActive u then
               (\<lparr>status = 401,
                 json_body = fail_json ''Account is deactivated. Please contact support.''\<rparr>,
                [FindOne (lb_email (req_body req)) PlusPassword])
             else
               (case comparePassword D u (lb_password (req_body req)) of
                  Throws e \<Rightarrow>
                    (\<lparr>status = 500, json_body = error_json ''Server error during login'' e\<rparr>,
                     [FindOne (lb_email (req_body req)) PlusPassword,
                      BcryptCompare (lb_password (req_body req)) (password u)])
                | Returns isPasswordMatch \<Rightarrow>
                    if \<not> isPasswordMatch then
                      (\<lparr>status = 401, json_body = fail_json ''Invalid email or password''\<rparr>,
                       [FindOne (lb_email (req_body req)) PlusPassword,
                        BcryptCompare (lb_password (req_body req)) (password u)])
                    else
                      (case generateToken D (uid u) of
                         Throws e \<Rightarrow>
                           (\<lparr>status = 500,
                             json_body = error_json ''Server error during login'' e\<rparr>,
                            [FindOne (lb_email (req_body req)) PlusPassword,
                             BcryptCompare (lb_password (req_body req)) (password u),
                             JwtSign (uid u)])
                       | Returns token \<Rightarrow>
                           (\<lparr>status = 200,
                             json_body =
                               JObj [(''success'', JBool True),
                                     (''message'', JStr ''Login successful''),
                                     (''token'', JStr token),
                                     (''user'',
                                      JObj [(''id'', JStr (uid u)), (''name'', JStr (name u)),
                                            (''email'', JStr (email u)),
                                            (''role'', JStr (role u))])]\<rparr>,
                            [FindOne (lb_email (req_body req)) PlusPassword,
                             BcryptCompare (lb_password (req_body req)) (password u),
                             JwtSign (uid u)])))))"

text \<open>\<open>getMe\<close> reads \<open>req.user\<close>, which \<open>protect\<close> has set.\<close>

definition getMe :: "'s deps \<Rightarrow> 's \<Rightarrow> user \<Rightarrow> response \<times> call list" where
  "getMe D s req_user =
     (case db_findById D s (uid req_user) DefaultFields of
        Throws e \<Rightarrow>
          (\<lparr>status = 500, json_body = error_json ''Server error'' e\<rparr>,
           [FindById (uid req_user) DefaultFields])
      | Returns None \<Rightarrow>
          (\<lparr>status = 404, json_body = fail_json ''User not found''\<rparr>,
           [FindById (uid req_user) DefaultFields])
      | Returns (Some u) \<Rightarrow>
          (\<lparr>status = 200,
            json_body =
              JObj [(''success'', JBool True),
                    (''user'',
                     JObj [(''id'', JStr (uid u)), (''name'', JStr (name u)),
                           (''email'', JStr (email u)), (''phone'', JStr (phone u)),
                           (''dateOfBirth'', JDate (dateOfBirth u)),
                           (''address'', address_json (address u)),
                           (''role'', JStr (role u)), (''isActive'', JBool (isActive u)),
                           (''createdAt'', JDate (createdAt u))])]\<rparr>,
           [FindById (uid req_user) DefaultFields]))"

section \<open>routes/authRoutes.js\<close>

definition verr :: "bool \<Rightarrow> string \<Rightarrow> string \<Rightarrow> verror list" where
  "verr ok p m = check ok \<lparr>path = p, msg = m\<rparr>"

text \<open>
  The custom validator of \<open>dateOfBirth\<close>: \<open>True\<close> when it returns \<open>true\<close>, \<open>False\<close> when it
  throws. For an invalid date the year is \<open>NaN\<close> and \<open>NaN < 18\<close> is false.
\<close>

definition dateOfBirth_custom :: "libs \<Rightarrow> string \<Rightarrow> bool" where
  "dateOfBirth_custom L v =
     (case newDate L v of
        None \<Rightarrow> True
      | Some birthDate \<Rightarrow> (let age = year (today L) - year birthDate in \<not> age < 18))"

text \<open>
  \<open>registerValidation\<close>: every chain runs to its end (there is no \<open>bail\<close>), a failing
  validator adds its message, and the sanitizers (\<open>trim\<close>, \<open>normalizeEmail\<close>) rewrite
  the body. A missing field is validated as the empty string; \<open>role\<close> is optional.
\<close>

definition registerValidation :: "libs \<Rightarrow> reg_body \<Rightarrow> reg_body request" where
  "registerValidation L b =
     \<lparr>validation_errors =
        verr (trim (rb_name b) \<noteq> []) ''name'' ''Name is required''
        @ verr (2 \<le> length (trim (rb_name b)) \<and> length (trim (rb_name b)) \<le> 50) ''name''
            ''Name must be between 2 and 50 characters''
        @ verr (trim (rb_email b) \<noteq> []) ''email'' ''Email is required''
        @ verr (isEmail L (trim (rb_email b))) ''email'' ''Please provide a valid email''
        @ verr (rb_password b \<noteq> []) ''password'' ''Password is required''
        @ verr (6 \<le> length (rb_password b)) ''password'' ''Password must be at least 6 characters''
        @ verr (password_pattern (rb_password b)) ''password''
            ''Password must contain at least one uppercase letter, one lowercase letter, and one number''
        @ verr (trim (rb_phone b) \<noteq> []) ''phone'' ''Phone number is required''
        @ verr (matches (digits_pattern 10) (trim (rb_phone b))) ''phone''
            ''Phone number must be 10 digits''
        @ verr (rb_dateOfBirth b \<noteq> []) ''dateOfBirth'' ''Date of birth is required''
        @ verr (isDate L (rb_dateOfBirth b)) ''dateOfBirth'' ''Please provide a valid date''
        @ verr (dateOfBirth_custom L (rb_dateOfBirth b)) ''dateOfBirth''
            ''You must be at least 18 years old to register''
        @ verr (trim (street (rb_address b)) \<noteq> []) ''address.street'' ''Street address is required''
        @ verr (trim (city (rb_address b)) \<noteq> []) ''address.city'' ''City is required''
        @ verr (trim (state (rb_address b)) \<noteq> []) ''address.state'' ''State is required''
        @ verr (trim (zipCode (rb_address b)) \<noteq> []) ''address.zipCode'' ''Zip code is required''
        @ verr (matches (digits_pattern 6) (trim (zipCode (rb_address b)))) ''address.zipCode''
            ''Zip code must be 6 digits''
        @ (case rb_role b of
             None \<Rightarrow> []
           | Some r \<Rightarrow>
               verr (r \<in> set [''customer'', ''agent'', ''admin'']) ''role''
                 ''Role must be customer, agent, or admin''),
      req_body =
        \<lparr>rb_name = trim (rb_name b),
         rb_email = normalizeEmail L (trim (rb_email b)),
         rb_password = rb_password b,
         rb_phone = trim (rb_phone b),
         rb_dateOfBirth = rb_dateOfBirth b,
         rb_address =
           \<lparr>street = trim (street (rb_address b)), city = trim (city (rb_address b)),
            state = trim (state (rb_address b)), zipCode = trim (zipCode (rb_address b))\<rparr>,
         rb_role = rb_role b\<rparr>\<rparr>"

definition loginValidation :: "libs \<Rightarrow> login_body \<Rightarrow> login_body request" where
  "loginValidation L b =
     \<lparr>validation_errors =
        verr (trim (lb_email b) \<noteq> []) ''email'' ''Email is required''
        @ verr (isEmail L (trim (lb_email b))) ''email'' ''Please provide a valid email''
        @ verr (lb_password b \<noteq> []) ''password'' ''Password is required'',
      req_body = \<lparr>lb_email = trim (lb_email b), lb_password = lb_password b\<rparr>\<rparr>"

text \<open>
  \<open>router.post('/register', registerValidation, registerUser)\<close>,
  \<open>router.post('/login', loginValidation, loginUser)\<close> and
  \<open>router.get('/me', protect, getMe)\<close>.
\<close>

definition post_register ::
  "'s deps \<Rightarrow> 's \<Rightarrow> reg_body \<Rightarrow> response \<times> call list \<times> 's" where
  "post_register D s b = registerUser D s (registerValidation (lib D) b)"

definition post_login :: "'s deps \<Rightarrow> 's \<Rightarrow> login_body \<Rightarrow> response \<times> call list" where
  "post_login D s b = loginUser D s (loginValidation (lib D) b)"

definition me_route :: "'s deps \<Rightarrow> 's \<Rightarrow> string option \<Rightarrow> response \<times> call list" where
  "me_route D s authorization =
     (case protect D s authorization of
        (Reject r, cs) \<Rightarrow> (r, cs)
      | (Proceed u, cs) \<Rightarrow> (case getMe D s u of (r, cs') \<Rightarrow> (r, cs @ cs')))"

section \<open>middlewares/errorMiddleware.js\<close>

definition errorHandler :: "string option \<Rightarrow> js_error \<Rightarrow> response" where
  "errorHandler node_env err =
     \<lparr>status = (case statusCode err of None \<Rightarrow> 500 | Some c \<Rightarrow> if c = 0 then 500 else c),
      json_body =
        JObj ([(''success'', JBool False),
               (''message'', JStr (if err_message err = [] then ''Server Error'' else err_message err))]
              @ (if node_env = Some ''development''
                 then (case stack err of None \<Rightarrow> [] | Some st \<Rightarrow> [(''stack'', JStr st)])
                 else []))\<rparr>"

section \<open>Reading a response\<close>

definition field :: "string \<Rightarrow> json \<Rightarrow> json option" where
  "field k j = (case j of JObj kvs \<Rightarrow> map_of kvs k | _ \<Rightarrow> None)"

text \<open>Every key of a response, at any depth.\<close>

primrec all_keys :: "json \<Rightarrow> string list" where
  "all_keys (JBool b) = []"
| "all_keys (JStr s) = []"
| "all_keys (JDate d) = []"
| "all_keys (JArr js) = concat (map all_keys js)"
| "all_keys (JObj kvs) = concat (map (\<lambda>(k, ks). k # ks) (map (map_prod id all_keys) kvs))"

section \<open>The age of a person, as the specification words it\<close>

text \<open>
  The number of birthdays a person born on \<open>born\<close> has had on the day \<open>now\<close>: the
  difference of the years, less one while this year's birthday is still ahead.
\<close>

definition spec_age :: "jsdate \<Rightarrow> jsdate \<Rightarrow> int" where
  "spec_age now born =
     year now - year born
     - (if month now < month born \<or> (month now = month born \<and> day now < day born) then 1 else 0)"

section \<open>Sample collaborators\<close>

text \<open>
  Small executable stand-ins for the libraries, used to run the handlers on concrete
  requests. They agree with the libraries on the inputs evaluated in this theory and
  are no model of them beyond that: the sample digest is the salt followed by the
  plaintext, a sample token is a tag followed by the user id.
\<close>

definition sample_error :: "string \<Rightarrow> string \<Rightarrow> js_error" where
  "sample_error n m = \<lparr>err_name = n, err_message = m, statusCode = None, stack = None\<rparr>"

definition sample_genSalt :: "nat \<Rightarrow> string attempt" where
  "sample_genSalt rounds = Returns ''$2a$10$N9qo8uLOickgx2ZMRZoMye''"

definition sample_hash :: "string option \<Rightarrow> string \<Rightarrow> string attempt" where
  "sample_hash pw salt =
     (case pw of
        None \<Rightarrow> Throws (sample_error ''Error'' ''Illegal arguments: undefined, string'')
      | Some p \<Rightarrow> Returns (salt @ p))"

definition sample_compare :: "string \<Rightarrow> string option \<Rightarrow> bool attempt" where
  "sample_compare entered digest =
     (case digest of
        None \<Rightarrow> Throws (sample_error ''Error'' ''Illegal arguments: string, undefined'')
      | Some d \<Rightarrow> Returns (drop 29 d = entered))"

definition sample_sign :: "object_id \<Rightarrow> string option \<Rightarrow> string option \<Rightarrow> string attempt" where
  "sample_sign i secret expiresIn =
     (case secret of
        None \<Rightarrow> Throws (sample_error ''Error'' ''secretOrPrivateKey must have a value'')
      | Some k \<Rightarrow> Returns (''tok:'' @ i))"

definition sample_verify :: "string \<Rightarrow> string option \<Rightarrow> jwt_payload attempt" where
  "sample_verify t secret =
     (if secret = None then
        Throws (sample_error ''JsonWebTokenError'' ''secret or public key must be provided'')
      else if take 4 t = ''tok:'' then Returns \<lparr>payload_id = drop 4 t, iat = 0, exp = 2592000\<rparr>
      else if take 4 t = ''old:'' then Throws (sample_error ''TokenExpiredError'' ''jwt expired'')
      else if take 4 t = ''nbf:'' then Throws (sample_error ''NotBeforeError'' ''jwt not active'')
      else Throws (sample_error ''JsonWebTokenError'' ''jwt malformed''))"

text \<open>Dates written \<open>YYYY-MM-DD\<close>.\<close>

definition number :: "string \<Rightarrow> nat" where
  "number s = foldl (\<lambda>n c. 10 * n + (of_char c - 48)) 0 s"

definition sample_newDate :: "string \<Rightarrow> jsdate option" where
  "sample_newDate s =
     (if matches (Seq (digits_pattern 4)
                 (Seq (Atom (\<lambda>c. c = CHR ''-'')) (Seq (digits_pattern 2)
                 (Seq (Atom (\<lambda>c. c = CHR ''-'')) (digits_pattern 2))))) s
         \<and> 1 \<le> number (take 2 (drop 5 s)) \<and> number (take 2 (drop 5 s)) \<le> 12
         \<and> 1 \<le> number (drop 8 s) \<and> number (drop 8 s) \<le> 31
      then Some \<lparr>year = int (number (take 4 s)), month = number (take 2 (drop 5 s)),
                  day = number (drop 8 s)\<rparr>
      else None)"

text \<open>
  \<open>normalizeEmail\<close> with its default options, for Gmail addresses and for addresses
  of domains it has no rule for: lower case; for Gmail also no sub-address, no single
  dots, and the domain \<open>gmail.com\<close>.
\<close>

function drop_single_dots :: "string \<Rightarrow> string" where
  "drop_single_dots [] = []"
| "drop_single_dots (c # cs) =
     (if c = CHR ''.'' then
        (if takeWhile (\<lambda>x. x = CHR ''.'') cs = [] then drop_single_dots cs
         else c # takeWhile (\<lambda>x. x = CHR ''.'') cs
              @ drop_single_dots (dropWhile (\<lambda>x. x = CHR ''.'') cs))
      else c # drop_single_dots cs)"
  by pat_completeness auto
termination
  by (relation "measure length") (auto simp: length_dropWhile_le less_Suc_eq_le)

definition sample_normalizeEmail :: "string \<Rightarrow> string" where
  "sample_normalizeEmail e =
     (let parts = split CHR ''@'' e;
          domain = toLowerCase (last parts);
          local = join ''@'' (butlast parts)
      in if domain = ''gmail.com'' \<or> domain = ''googlemail.com''
         then toLowerCase (drop_single_dots (hd (split CHR ''+'' local))) @ ''@gmail.com''
         else toLowerCase local @ ''@'' @ domain)"

definition sample_libs :: libs where
  "sample_libs =
     \<lparr>isEmail = matches email_pattern,
      normalizeEmail = sample_normalizeEmail,
      isDate = (\<lambda>s. sample_newDate s \<noteq> None),
      newDate = sample_newDate,
      today = \<lparr>year = 2026, month = 11, day = 3\<rparr>,
      bcrypt_genSalt = sample_genSalt,
      bcrypt_hash = sample_hash,
      bcrypt_compare = sample_compare,
      jwt_sign = sample_sign,
      jwt_verify = sample_verify,
      new_ObjectId = (\<lambda>n. ''u'' @ replicate n CHR ''x''),
      JWT_SECRET = Some ''secret'',
      JWT_EXPIRE = Some ''30d'',
      NODE_ENV = Some ''production''\<rparr>"

text \<open>Two stored users, the second one deactivated.\<close>

definition alice :: user where
  "alice =
     \<lparr>uid = ''u'', name = ''Alice Roe'', email = ''alice@ex.com'',
      password = Some ''$2a$10$N9qo8uLOickgx2ZMRZoMyeAbcdef1'', phone = ''9876543210'',
      dateOfBirth = \<lparr>year = 1990, month = 1, day = 1\<rparr>,
      address = \<lparr>street = ''1 Rd'', city = ''C'', state = ''S'', zipCode = ''123456''\<rparr>,
      role = ''customer'', commissionRate = 0, assignedCustomers = [], isActive = True,
      createdAt = \<lparr>year = 2026, month = 1, day = 5\<rparr>,
      updatedAt = \<lparr>year = 2026, month = 1, day = 5\<rparr>\<rparr>"

definition bob :: user where
  "bob = alice\<lparr>uid := ''ux'', name := ''Bob Poe'', email := ''bob@ex.com'', isActive := False\<rparr>"

definition sample_store :: "user list" where
  "sample_store = [alice, bob]"

text \<open>The registration of the specification's scenario, and one with a dotted Gmail address.\<close>

definition jane :: reg_body where
  "jane =
     \<lparr>rb_name = ''Jane Doe'', rb_email = ''JANE@EX.com'', rb_password = ''Abcdef1'',
      rb_phone = ''9876543210'', rb_dateOfBirth = ''1990-01-01'',
      rb_address = \<lparr>street = ''1 Rd'', city = ''C'', state = ''S'', zipCode = ''123456''\<rparr>,
      rb_role = None\<rparr>"

definition dotty :: reg_body where
  "dotty = jane\<lparr>rb_name := ''Dot Ty'', rb_email := ''a.b@gmail.com''\<rparr>"

text \<open>The user the store holds after the registration \<open>dotty\<close> on the empty store.\<close>

definition dot_user :: user where
  "dot_user =
     \<lparr>uid = ''u'', name = ''Dot Ty'', email = ''ab@gmail.com'',
      password = Some ''$2a$10$N9qo8uLOickgx2ZMRZoMyeAbcdef1'', phone = ''9876543210'',
      dateOfBirth = \<lparr>year = 1990, month = 1, day = 1\<rparr>,
      address = \<lparr>street = ''1 Rd'', city = ''C'', state = ''S'', zipCode = ''123456''\<rparr>,
      role = ''customer'', commissionRate = 0, assignedCustomers = [], isActive = True,
      createdAt = \<lparr>year = 2026, month = 11, day = 3\<rparr>,
      updatedAt = \<lparr>year = 2026, month = 11, day = 3\<rparr>\<rparr>"

text \<open>The sample collaborators with a store that cannot be reached.\<close>

definition unreachable_deps :: "user list deps" where
  "unreachable_deps =
     (memory_deps sample_libs)
       \<lparr>db_findOne := (\<lambda>s e p. Throws (sample_error ''MongoNetworkError'' ''connection refused'')),
        db_findById := (\<lambda>s i p. Throws (sample_error ''MongoNetworkError'' ''connection refused''))\<rparr>"

section \<open>The matcher accepts the words of the expression\<close>

inductive_cases in_lang_ZeroE: "in_lang Zero w"
inductive_cases in_lang_OneE: "in_lang One w"
inductive_cases in_lang_AltE: "in_lang (Alt r t) w"
inductive_cases in_lang_SeqE: "in_lang (Seq r t) w"

lemma in_lang_nil_nullable: "in_lang r w \<Longrightarrow> w = [] \<Longrightarrow> nullable r"
  by (induction rule: in_lang.induct) auto

lemma nullable_in_lang_nil: "nullable r \<Longrightarrow> in_lang r []"
proof (induction r)
  case (Seq r t)
  then have "in_lang r []" and "in_lang t []" by simp_all
  from in_lang.both [OF this] show ?case by simp
qed (auto intro: in_lang.intros)

lemma nullable_iff: "nullable r \<longleftrightarrow> in_lang r []"
  using in_lang_nil_nullable nullable_in_lang_nil by blast

lemma deriv_sound: "in_lang (deriv c r) w \<Longrightarrow> in_lang r (c # w)"
proof (induction r arbitrary: w)
  case Zero
  then show ?case by (auto elim: in_lang_ZeroE)
next
  case One
  then show ?case by (auto elim: in_lang_ZeroE)
next
  case (Atom p)
  then show ?case
    by (auto split: if_splits elim!: in_lang_ZeroE in_lang_OneE intro: in_lang.single)
next
  case (Alt r t)
  then show ?case by (auto elim!: in_lang_AltE intro: in_lang.left in_lang.right)
next
  case (Seq r t)
  have step: "in_lang (Seq (deriv c r) t) w \<Longrightarrow> in_lang (Seq r t) (c # w)"
  proof (erule in_lang_SeqE)
    fix u v
    assume "w = u @ v" and "in_lang (deriv c r) u" and "in_lang t v"
    with Seq.IH(1) [of u] in_lang.both [of r "c # u" t v] show ?thesis by simp
  qed
  have skip: "nullable r \<Longrightarrow> in_lang (deriv c t) w \<Longrightarrow> in_lang (Seq r t) (c # w)"
    using Seq.IH(2) [of w] in_lang.both [of r "[]" t "c # w"] nullable_in_lang_nil [of r]
    by simp
  from Seq.prems step skip show ?case
    by (auto split: if_splits elim!: in_lang_AltE)
next
  case (Star r)
  from Star.prems have "in_lang (Seq (deriv c r) (Star r)) w" by simp
  then show ?case
  proof (rule in_lang_SeqE)
    fix u v
    assume "w = u @ v" and "in_lang (deriv c r) u" and "in_lang (Star r) v"
    with Star.IH [of u] in_lang.more [of r "c # u" v] show ?thesis by simp
  qed
qed

lemma deriv_complete: "in_lang r x \<Longrightarrow> x = c # w \<Longrightarrow> in_lang (deriv c r) w"
proof (induction arbitrary: w rule: in_lang.induct)
  case (both r u t v)
  show ?case
  proof (cases u)
    case Nil
    with both have "nullable r" and "in_lang (deriv c t) w"
      by (auto simp: nullable_iff)
    then show ?thesis by (auto intro: in_lang.right)
  next
    case (Cons a u')
    with both have "in_lang (deriv c r) u'" and w: "w = u' @ v" by auto
    with both(2) have "in_lang (Seq (deriv c r) t) w" by (auto intro: in_lang.both)
    then show ?thesis by (auto intro: in_lang.left)
  qed
next
  case (more r u v)
  show ?case
  proof (cases u)
    case Nil
    with more show ?thesis by simp
  next
    case (Cons a u')
    with more have "in_lang (deriv c r) u'" and "w = u' @ v" by auto
    with more(2) show ?thesis by (auto intro: in_lang.both)
  qed
qed (auto intro: in_lang.intros)

lemma matches_in_lang: "matches r w \<longleftrightarrow> in_lang r w"
proof (induction w arbitrary: r)
  case Nil
  then show ?case by (simp add: nullable_iff)
next
  case (Cons c w)
  then show ?case using deriv_sound deriv_complete by auto
qed

section \<open>The bearer token of a request\<close>

lemma split_no_sep: "c \<notin> set t \<Longrightarrow> split c t = [t]"
  by (induction t) auto

lemma split_append_sep: "c \<notin> set p \<Longrightarrow> split c (p @ c # t) = p # split c t"
  by (induction p) auto

lemma header_token_bearer:
  "CHR '' '' \<notin> set token \<Longrightarrow> header_token (Some (''Bearer '' @ token)) = Some token"
  using split_append_sep [of "CHR '' ''" "''Bearer''" token]
  by (simp add: header_token_def startsWith_def split_no_sep)

lemma split_first_nonempty:
  "h \<noteq> [] \<Longrightarrow> hd h \<noteq> c \<Longrightarrow> \<exists>w ws. split c h = w # ws \<and> w \<noteq> []"
  by (cases h) (auto split: list.splits)

lemma index_one_blank:
  assumes "length (filter (\<lambda>w. w \<noteq> []) (w # ws)) < 2" and "w \<noteq> []"
  shows "index (w # ws) 1 = None \<or> index (w # ws) 1 = Some []"
  using assms by (cases ws) (auto split: if_splits)

lemma header_token_blank:
  assumes "length (filter (\<lambda>w. w \<noteq> []) (split CHR '' '' h)) < 2"
  shows "header_token (Some h) = None \<or> header_token (Some h) = Some []"
proof (cases "h \<noteq> [] \<and> startsWith h ''Bearer''")
  case True
  then have "h \<noteq> []" and "hd h \<noteq> CHR '' ''"
    by (auto simp: startsWith_def take_Suc_conv_app_nth hd_conv_nth dest!: arg_cong [where f = hd])
  from split_first_nonempty [OF this] obtain w ws
    where s: "split CHR '' '' h = w # ws" and w: "w \<noteq> []" by blast
  from index_one_blank [of w ws] assms s w True show ?thesis
    by (simp add: header_token_def)
next
  case False
  then show ?thesis by (auto simp: header_token_def)
qed

section \<open>The pre-save hook\<close>

text \<open>
  C1. The claim is that saving a document whose password was not modified leaves the
  stored digest alone. The hook does not: its guard calls \<open>next()\<close> and falls through,
  so whenever bcrypt succeeds the hook has hashed the stored digest again and written
  the result into the password field, and has called \<open>next()\<close> twice.
\<close>

theorem pre_save_rehashes_unmodified:
  assumes "\<not> isModified d ''password''"
    and "genSalt 10 = Returns salt"
    and "hash (password (doc d)) salt = Returns h"
  shows "pre_save genSalt hash d =
           (d\<lparr>doc := (doc d)\<lparr>password := Some h\<rparr>,
              modified := List.insert ''password'' (modified d)\<rparr>,
            [NextCalled, BcryptGenSalt 10, BcryptHash (password (doc d)) salt, NextCalled],
            None)"
  using assms by (simp add: pre_save_def)

text \<open>
  On the stored user \<open>alice\<close>, loaded with her digest and saved after a change of name:
  the digest is replaced by the hash of itself.
\<close>

theorem pre_save_rehashes_unmodified_witness:
  "\<not> isModified \<lparr>doc = alice, modified = [''name'']\<rparr> ''password''
   \<and> password (doc (fst (pre_save sample_genSalt sample_hash \<lparr>doc = alice, modified = [''name'']\<rparr>)))
       = Some ''$2a$10$N9qo8uLOickgx2ZMRZoMye$2a$10$N9qo8uLOickgx2ZMRZoMyeAbcdef1''
   \<and> password alice = Some ''$2a$10$N9qo8uLOickgx2ZMRZoMyeAbcdef1''
   \<and> fst (snd (pre_save sample_genSalt sample_hash \<lparr>doc = alice, modified = [''name'']\<rparr>))
       = [NextCalled, BcryptGenSalt 10,
          BcryptHash (Some ''$2a$10$N9qo8uLOickgx2ZMRZoMyeAbcdef1'') ''$2a$10$N9qo8uLOickgx2ZMRZoMye'',
          NextCalled]"
  using pre_save_rehashes_unmodified
          [of "\<lparr>doc = alice, modified = [''name'']\<rparr>" sample_genSalt
              "''$2a$10$N9qo8uLOickgx2ZMRZoMye''" sample_hash
              "''$2a$10$N9qo8uLOickgx2ZMRZoMye$2a$10$N9qo8uLOickgx2ZMRZoMyeAbcdef1''"]
  by (simp add: isModified_def sample_genSalt_def sample_hash_def alice_def)

section \<open>The authenticate middleware\<close>

text \<open>
  C10. When the Authorization header is absent, does not start with \<open>Bearer\<close>, or has
  no second part (cut at its spaces it has fewer than two non-empty parts, as the
  header that is exactly \<open>Bearer\<close>), \<open>protect\<close> answers 401 "Not authorized, no token
  provided" and has called neither the token verification nor the store: the log of
  calls is empty, whatever the collaborators.
\<close>

theorem protect_no_token:
  assumes "authorization = None
           \<or> (\<exists>h. authorization = Some h
                 \<and> (\<not> startsWith h ''Bearer''
                      \<or> length (filter (\<lambda>w. w \<noteq> []) (split CHR '' '' h)) < 2))"
  shows "protect D s authorization =
           (Reject \<lparr>status = 401, json_body = fail_json ''Not authorized, no token provided''\<rparr>, [])"
proof -
  have "header_token authorization = None \<or> header_token authorization = Some []"
  proof (cases authorization)
    case None
    then show ?thesis by (simp add: header_token_def)
  next
    case (Some h)
    show ?thesis
    proof (cases "startsWith h ''Bearer''")
      case True
      with assms Some have "length (filter (\<lambda>w. w \<noteq> []) (split CHR '' '' h)) < 2" by simp
      from header_token_blank [OF this] Some show ?thesis by simp
    next
      case False
      with Some show ?thesis by (simp add: header_token_def)
    qed
  qed
  then show ?thesis by (auto simp: protect_def)
qed

text \<open>
  No header, a Basic header, the header that is exactly \<open>Bearer\<close>, and \<open>Bearer\<close>
  followed by a space.
\<close>

theorem protect_no_token_witness:
  "protect (memory_deps sample_libs) sample_store None =
     (Reject \<lparr>status = 401, json_body = fail_json ''Not authorized, no token provided''\<rparr>, [])
   \<and> \<not> startsWith ''Basic dXNlcjpwdw=='' ''Bearer''
   \<and> protect (memory_deps sample_libs) sample_store (Some ''Basic dXNlcjpwdw=='') =
     (Reject \<lparr>status = 401, json_body = fail_json ''Not authorized, no token provided''\<rparr>, [])
   \<and> split CHR '' '' ''Bearer'' = [''Bearer'']
   \<and> protect (memory_deps sample_libs) sample_store (Some ''Bearer'') =
     (Reject \<lparr>status = 401, json_body = fail_json ''Not authorized, no token provided''\<rparr>, [])
   \<and> split CHR '' '' ''Bearer '' = [''Bearer'', []]
   \<and> protect (memory_deps sample_libs) sample_store (Some ''Bearer '') =
     (Reject \<lparr>status = 401, json_body = fail_json ''Not authorized, no token provided''\<rparr>, [])"
  using protect_no_token [of None "memory_deps sample_libs" sample_store]
    protect_no_token [of "Some ''Basic dXNlcjpwdw==''" "memory_deps sample_libs" sample_store]
    protect_no_token [of "Some ''Bearer''" "memory_deps sample_libs" sample_store]
    protect_no_token [of "Some ''Bearer ''" "memory_deps sample_libs" sample_store]
  by (simp add: startsWith_def)

text \<open>
  C3. A request carries \<open>Bearer token\<close>, the token verifies, and the user it names is
  stored with \<open>isActive = false\<close>. Then \<open>protect\<close> answers 401 "Account is deactivated",
  and on the protected route the handler behind it does not run: the calls are the
  verification and the one lookup of \<open>protect\<close>, with no \<open>next()\<close> and no query of
  \<open>getMe\<close>. Nothing but the stored flag is consulted.
\<close>

theorem protect_deactivated:
  assumes "authorization = Some (''Bearer '' @ token)" and "token \<noteq> []" and "CHR '' '' \<notin> set token"
    and "jwt_verify (lib D) token (JWT_SECRET (lib D)) = Returns decoded"
    and "db_findById D s (payload_id decoded) MinusPassword = Returns (Some u)"
    and "\<not> isActive u"
  shows "protect D s authorization =
           (Reject \<lparr>status = 401, json_body = fail_json ''Account is deactivated''\<rparr>,
            [JwtVerify token, FindById (payload_id decoded) MinusPassword])
         \<and> me_route D s authorization =
           (\<lparr>status = 401, json_body = fail_json ''Account is deactivated''\<rparr>,
            [JwtVerify token, FindById (payload_id decoded) MinusPassword])"
  using assms header_token_bearer [of token] by (simp add: protect_def me_route_def)

lemma sample_verify_ux:
  "jwt_verify (lib (memory_deps sample_libs)) ''tok:ux'' (JWT_SECRET (lib (memory_deps sample_libs)))
     = Returns \<lparr>payload_id = ''ux'', iat = 0, exp = 2592000\<rparr>"
  by (simp add: memory_deps_def sample_libs_def sample_verify_def)

lemma sample_find_ux:
  "db_findById (memory_deps sample_libs) sample_store ''ux'' MinusPassword
     = Returns (Some (bob\<lparr>password := None\<rparr>))"
  by (simp add: memory_deps_def store_findById_def sample_store_def alice_def bob_def select_def)

text \<open>The deactivated user \<open>bob\<close> with a token issued for him.\<close>

theorem protect_deactivated_witness:
  "jwt_verify (lib (memory_deps sample_libs)) ''tok:ux'' (JWT_SECRET (lib (memory_deps sample_libs)))
     = Returns \<lparr>payload_id = ''ux'', iat = 0, exp = 2592000\<rparr>
   \<and> db_findById (memory_deps sample_libs) sample_store ''ux'' MinusPassword
     = Returns (Some (bob\<lparr>password := None\<rparr>))
   \<and> \<not> isActive (bob\<lparr>password := None\<rparr>)
   \<and> me_route (memory_deps sample_libs) sample_store (Some ''Bearer tok:ux'') =
        (\<lparr>status = 401, json_body = fail_json ''Account is deactivated''\<rparr>,
         [JwtVerify ''tok:ux'', FindById ''ux'' MinusPassword])"
  using protect_deactivated [of "Some ''Bearer tok:ux''" "''tok:ux''" "memory_deps sample_libs"
      "\<lparr>payload_id = ''ux'', iat = 0, exp = 2592000\<rparr>" sample_store "bob\<lparr>password := None\<rparr>"]
    sample_verify_ux sample_find_ux
  by (simp add: bob_def)

lemma sample_deps_simps:
  "lib (memory_deps L) = L"
  "db_findById (memory_deps L) = store_findById"
  "db_findOne (memory_deps L) = store_findOne"
  "db_create (memory_deps L) = store_create L"
  "lib unreachable_deps = sample_libs"
  "db_findById unreachable_deps s i p = Throws (sample_error ''MongoNetworkError'' ''connection refused'')"
  "db_findOne unreachable_deps s e p = Throws (sample_error ''MongoNetworkError'' ''connection refused'')"
  by (simp_all add: memory_deps_def unreachable_deps_def)

lemma sample_tokens:
  "header_token (Some ''Bearer '') = Some []"
  "header_token (Some ''Bearer garbage'') = Some ''garbage''"
  "header_token (Some ''Bearer old:u'') = Some ''old:u''"
  "header_token (Some ''Bearer nbf:u'') = Some ''nbf:u''"
  "header_token (Some ''Bearer tok:zz'') = Some ''tok:zz''"
  "header_token (Some ''Bearer tok:ux'') = Some ''tok:ux''"
  "header_token (Some ''Bearer tok:u'') = Some ''tok:u''"
  by (simp_all add: header_token_def startsWith_def)

lemma sample_verify_results:
  "jwt_verify sample_libs ''garbage'' (JWT_SECRET sample_libs)
     = Throws (sample_error ''JsonWebTokenError'' ''jwt malformed'')"
  "jwt_verify sample_libs ''old:u'' (JWT_SECRET sample_libs)
     = Throws (sample_error ''TokenExpiredError'' ''jwt expired'')"
  "jwt_verify sample_libs ''nbf:u'' (JWT_SECRET sample_libs)
     = Throws (sample_error ''NotBeforeError'' ''jwt not active'')"
  "jwt_verify sample_libs ''tok:zz'' (JWT_SECRET sample_libs)
     = Returns \<lparr>payload_id = ''zz'', iat = 0, exp = 2592000\<rparr>"
  "jwt_verify sample_libs ''tok:ux'' (JWT_SECRET sample_libs)
     = Returns \<lparr>payload_id = ''ux'', iat = 0, exp = 2592000\<rparr>"
  "jwt_verify sample_libs ''tok:u'' (JWT_SECRET sample_libs)
     = Returns \<lparr>payload_id = ''u'', iat = 0, exp = 2592000\<rparr>"
  by (simp_all add: sample_libs_def sample_verify_def)

lemma sample_lookups:
  "store_findById sample_store ''zz'' MinusPassword = Returns None"
  "store_findById sample_store ''ux'' MinusPassword = Returns (Some (bob\<lparr>password := None\<rparr>))"
  "store_findById sample_store ''u'' MinusPassword = Returns (Some (alice\<lparr>password := None\<rparr>))"
  by (simp_all add: store_findById_def sample_store_def alice_def bob_def select_def)

lemma protect_without_token:
  assumes "header_token a = None \<or> header_token a = Some []"
  shows "protect D s a =
           (Reject \<lparr>status = 401, json_body = fail_json ''Not authorized, no token provided''\<rparr>, [])"
  using assms by (auto simp: protect_def)

lemma protect_verify_throws:
  assumes "header_token a = Some t" and "t \<noteq> []"
    and "jwt_verify (lib D) t (JWT_SECRET (lib D)) = Throws e"
  shows "protect D s a = (Reject (protect_catch e), [JwtVerify t])"
  using assms by (simp add: protect_def)

lemma protect_lookup:
  assumes "header_token a = Some t" and "t \<noteq> []"
    and "jwt_verify (lib D) t (JWT_SECRET (lib D)) = Returns p"
  shows "protect D s a =
           (case db_findById D s (payload_id p) MinusPassword of
              Throws e \<Rightarrow> (Reject (protect_catch e), [JwtVerify t, FindById (payload_id p) MinusPassword])
            | Returns None \<Rightarrow>
                (Reject \<lparr>status = 401, json_body = fail_json ''User not found''\<rparr>,
                 [JwtVerify t, FindById (payload_id p) MinusPassword])
            | Returns (Some u) \<Rightarrow>
                if isActive u
                then (Proceed u, [JwtVerify t, FindById (payload_id p) MinusPassword, NextCalled])
                else (Reject \<lparr>status = 401, json_body = fail_json ''Account is deactivated''\<rparr>,
                      [JwtVerify t, FindById (payload_id p) MinusPassword]))"
  using assms by (simp add: protect_def split: attempt.splits option.splits)

text \<open>
  C6. \<open>protect\<close> takes its steps in order and stops at the first that fails. Without a
  token it answers 401 "Not authorized, no token provided" and calls nothing. With a
  token, a verification that throws ends the request before the store is asked: 401
  "Invalid token" for a JsonWebTokenError, 401 "Token expired, please login again" for
  a TokenExpiredError, 500 for any other error. After a verification that returns, the
  one lookup by the embedded id decides: no user gives 401 "User not found", a user
  with \<open>isActive = false\<close> gives 401 "Account is deactivated", an active user is
  attached and \<open>next()\<close> is called, and a lookup that throws an error of another name
  gives 500. The five 401 messages differ from each other.
\<close>

theorem protect_steps:
  "(header_token a = None \<or> header_token a = Some [] \<longrightarrow>
      protect D s a =
        (Reject \<lparr>status = 401, json_body = fail_json ''Not authorized, no token provided''\<rparr>, []))
   \<and> (\<forall>t. header_token a = Some t \<and> t \<noteq> [] \<longrightarrow>
        (\<forall>e. jwt_verify (lib D) t (JWT_SECRET (lib D)) = Throws e \<longrightarrow>
           (err_name e = ''JsonWebTokenError'' \<longrightarrow>
              protect D s a =
                (Reject \<lparr>status = 401, json_body = fail_json ''Invalid token''\<rparr>, [JwtVerify t]))
           \<and> (err_name e = ''TokenExpiredError'' \<longrightarrow>
              protect D s a =
                (Reject \<lparr>status = 401, json_body = fail_json ''Token expired, please login again''\<rparr>,
                 [JwtVerify t]))
           \<and> (err_name e \<noteq> ''JsonWebTokenError'' \<and> err_name e \<noteq> ''TokenExpiredError'' \<longrightarrow>
              protect D s a =
                (Reject \<lparr>status = 500, json_body = error_json ''Server error in authentication'' e\<rparr>,
                 [JwtVerify t])))
        \<and> (\<forall>p. jwt_verify (lib D) t (JWT_SECRET (lib D)) = Returns p \<longrightarrow>
             (db_findById D s (payload_id p) MinusPassword = Returns None \<longrightarrow>
                protect D s a =
                  (Reject \<lparr>status = 401, json_body = fail_json ''User not found''\<rparr>,
                   [JwtVerify t, FindById (payload_id p) MinusPassword]))
             \<and> (\<forall>u. db_findById D s (payload_id p) MinusPassword = Returns (Some u) \<longrightarrow>
                  (\<not> isActive u \<longrightarrow>
                     protect D s a =
                       (Reject \<lparr>status = 401, json_body = fail_json ''Account is deactivated''\<rparr>,
                        [JwtVerify t, FindById (payload_id p) MinusPassword]))
                  \<and> (isActive u \<longrightarrow>
                     protect D s a =
                       (Proceed u,
                        [JwtVerify t, FindById (payload_id p) MinusPassword, NextCalled])))
             \<and> (\<forall>e. db_findById D s (payload_id p) MinusPassword = Throws e
                      \<and> err_name e \<noteq> ''JsonWebTokenError'' \<and> err_name e \<noteq> ''TokenExpiredError'' \<longrightarrow>
                  protect D s a =
                    (Reject \<lparr>status = 500,
                       json_body = error_json ''Server error in authentication'' e\<rparr>,
                     [JwtVerify t, FindById (payload_id p) MinusPassword]))))
   \<and> distinct [''Not authorized, no token provided'', ''Invalid token'',
               ''Token expired, please login again'', ''User not found'',
               ''Account is deactivated'']"
proof (intro conjI allI impI)
  assume "header_token a = None \<or> header_token a = Some []"
  then show "protect D s a =
        (Reject \<lparr>status = 401, json_body = fail_json ''Not authorized, no token provided''\<rparr>, [])"
    by (rule protect_without_token)
next
  fix t e
  assume t: "header_token a = Some t \<and> t \<noteq> []"
    and e: "jwt_verify (lib D) t (JWT_SECRET (lib D)) = Throws e"
  then have c: "protect D s a = (Reject (protect_catch e), [JwtVerify t])"
    by (simp add: protect_verify_throws)
  {
    assume "err_name e = ''JsonWebTokenError''"
    with c show "protect D s a =
        (Reject \<lparr>status = 401, json_body = fail_json ''Invalid token''\<rparr>, [JwtVerify t])"
      by (simp add: protect_catch_def)
  next
    assume "err_name e = ''TokenExpiredError''"
    with c show "protect D s a =
        (Reject \<lparr>status = 401, json_body = fail_json ''Token expired, please login again''\<rparr>,
         [JwtVerify t])"
      by (simp add: protect_catch_def)
  next
    assume "err_name e \<noteq> ''JsonWebTokenError'' \<and> err_name e \<noteq> ''TokenExpiredError''"
    with c show "protect D s a =
        (Reject \<lparr>status = 500, json_body = error_json ''Server error in authentication'' e\<rparr>,
         [JwtVerify t])"
      by (simp add: protect_catch_def)
  }
next
  fix t p
  assume t: "header_token a = Some t \<and> t \<noteq> []"
    and p: "jwt_verify (lib D) t (JWT_SECRET (lib D)) = Returns p"
  then have c: "protect D s a =
           (case db_findById D s (payload_id p) MinusPassword of
              Throws e \<Rightarrow> (Reject (protect_catch e), [JwtVerify t, FindById (payload_id p) MinusPassword])
            | Returns None \<Rightarrow>
                (Reject \<lparr>status = 401, json_body = fail_json ''User not found''\<rparr>,
                 [JwtVerify t, FindById (payload_id p) MinusPassword])
            | Returns (Some u) \<Rightarrow>
                if isActive u
                then (Proceed u, [JwtVerify t, FindById (payload_id p) MinusPassword, NextCalled])
                else (Reject \<lparr>status = 401, json_body = fail_json ''Account is deactivated''\<rparr>,
                      [JwtVerify t, FindById (payload_id p) MinusPassword]))"
    by (simp add: protect_lookup)
  {
    assume "db_findById D s (payload_id p) MinusPassword = Returns None"
    with c show "protect D s a =
        (Reject \<lparr>status = 401, json_body = fail_json ''User not found''\<rparr>,
         [JwtVerify t, FindById (payload_id p) MinusPassword])"
      by simp
  next
    fix u
    assume u: "db_findById D s (payload_id p) MinusPassword = Returns (Some u)"
    {
      assume "\<not> isActive u"
      with c u show "protect D s a =
          (Reject \<lparr>status = 401, json_body = fail_json ''Account is deactivated''\<rparr>,
           [JwtVerify t, FindById (payload_id p) MinusPassword])"
        by simp
    next
      assume "isActive u"
      with c u show "protect D s a =
          (Proceed u, [JwtVerify t, FindById (payload_id p) MinusPassword, NextCalled])"
        by simp
    }
  next
    fix e
    assume "db_findById D s (payload_id p) MinusPassword = Throws e
            \<and> err_name e \<noteq> ''JsonWebTokenError'' \<and> err_name e \<noteq> ''TokenExpiredError''"
    with c show "protect D s a =
        (Reject \<lparr>status = 500, json_body = error_json ''Server error in authentication'' e\<rparr>,
         [JwtVerify t, FindById (payload_id p) MinusPassword])"
      by (simp add: protect_catch_def)
  }
next
  show "distinct [''Not authorized, no token provided'', ''Invalid token'',
               ''Token expired, please login again'', ''User not found'',
               ''Account is deactivated'']"
    by simp
qed

text \<open>
  One request for each outcome: an empty token, a malformed one, an expired one, one
  that is not yet valid (an error of another name), a token of an unknown user, of
  the deactivated \<open>bob\<close>, of the active \<open>alice\<close>, and \<open>alice\<close>'s token while the store is
  unreachable.
\<close>

theorem protect_steps_witness:
  "protect (memory_deps sample_libs) sample_store (Some ''Bearer '') =
     (Reject \<lparr>status = 401, json_body = fail_json ''Not authorized, no token provided''\<rparr>, [])
   \<and> protect (memory_deps sample_libs) sample_store (Some ''Bearer garbage'') =
     (Reject \<lparr>status = 401, json_body = fail_json ''Invalid token''\<rparr>, [JwtVerify ''garbage''])
   \<and> protect (memory_deps sample_libs) sample_store (Some ''Bearer old:u'') =
     (Reject \<lparr>status = 401, json_body = fail_json ''Token expired, please login again''\<rparr>,
      [JwtVerify ''old:u''])
   \<and> protect (memory_deps sample_libs) sample_store (Some ''Bearer nbf:u'') =
     (Reject \<lparr>status = 500,
        json_body = error_json ''Server error in authentication''
                      (sample_error ''NotBeforeError'' ''jwt not active'')\<rparr>,
      [JwtVerify ''nbf:u''])
   \<and> protect (memory_deps sample_libs) sample_store (Some ''Bearer tok:zz'') =
     (Reject \<lparr>status = 401, json_body = fail_json ''User not found''\<rparr>,
      [JwtVerify ''tok:zz'', FindById ''zz'' MinusPassword])
   \<and> protect (memory_deps sample_libs) sample_store (Some ''Bearer tok:ux'') =
     (Reject \<lparr>status = 401, json_body = fail_json ''Account is deactivated''\<rparr>,
      [JwtVerify ''tok:ux'', FindById ''ux'' MinusPassword])
   \<and> protect (memory_deps sample_libs) sample_store (Some ''Bearer tok:u'') =
     (Proceed (alice\<lparr>password := None\<rparr>),
      [JwtVerify ''tok:u'', FindById ''u'' MinusPassword, NextCalled])
   \<and> protect unreachable_deps sample_store (Some ''Bearer tok:u'') =
     (Reject \<lparr>status = 500,
        json_body = error_json ''Server error in authentication''
                      (sample_error ''MongoNetworkError'' ''connection refused'')\<rparr>,
      [JwtVerify ''tok:u'', FindById ''u'' MinusPassword])"
  using protect_steps [of "Some ''Bearer ''" "memory_deps sample_libs" sample_store]
    protect_steps [of "Some ''Bearer garbage''" "memory_deps sample_libs" sample_store]
    protect_steps [of "Some ''Bearer old:u''" "memory_deps sample_libs" sample_store]
    protect_steps [of "Some ''Bearer nbf:u''" "memory_deps sample_libs" sample_store]
    protect_steps [of "Some ''Bearer tok:zz''" "memory_deps sample_libs" sample_store]
    protect_steps [of "Some ''Bearer tok:ux''" "memory_deps sample_libs" sample_store]
    protect_steps [of "Some ''Bearer tok:u''" "memory_deps sample_libs" sample_store]
    protect_steps [of "Some ''Bearer tok:u''" unreachable_deps sample_store]
  by (simp add: sample_tokens sample_verify_results sample_lookups sample_deps_simps
      sample_error_def alice_def bob_def)

section \<open>Login\<close>

lemma verr_Nil: "verr ok p m = [] \<longleftrightarrow> ok"
  by (simp add: verr_def check_def)

lemma loginValidation_passes:
  "validation_errors (loginValidation L b) = []
   \<longleftrightarrow> trim (lb_email b) \<noteq> [] \<and> isEmail L (trim (lb_email b)) \<and> lb_password b \<noteq> []"
  by (simp add: loginValidation_def verr_Nil)

lemma loginValidation_body:
  "req_body (loginValidation L b) = \<lparr>lb_email = trim (lb_email b), lb_password = lb_password b\<rparr>"
  by (simp add: loginValidation_def)

text \<open>
  C4. Take one login request and two states of the store: in the first no user has
  the email, in the second an active user has it and the submitted password does not
  match. The two responses are the same response, and for a request that passes the
  validation it is 401 "Invalid email or password".
\<close>

theorem login_failures_indistinguishable:
  assumes "db_findOne D s (trim (lb_email b)) PlusPassword = Returns None"
    and "db_findOne D s' (trim (lb_email b)) PlusPassword = Returns (Some u)"
    and "isActive u"
    and "comparePassword D u (lb_password b) = Returns False"
  shows "fst (post_login D s b) = fst (post_login D s' b)
         \<and> (validation_errors (loginValidation (lib D) b) = [] \<longrightarrow>
              fst (post_login D s b) =
                \<lparr>status = 401, json_body = fail_json ''Invalid email or password''\<rparr>)"
  using assms by (simp add: post_login_def loginUser_def loginValidation_body)

lemma sample_login_alice:
  "db_findOne (memory_deps sample_libs) [] (trim ''alice@ex.com'') PlusPassword = Returns None"
  "db_findOne (memory_deps sample_libs) sample_store (trim ''alice@ex.com'') PlusPassword
     = Returns (Some alice)"
  "comparePassword (memory_deps sample_libs) alice ''Wrong12'' = Returns False"
  "validation_errors (loginValidation sample_libs \<lparr>lb_email = ''alice@ex.com'', lb_password = ''Wrong12''\<rparr>) = []"
  by code_simp+

text \<open>A wrong password for \<open>alice\<close>, against the empty store and against the sample store.\<close>

theorem login_failures_indistinguishable_witness:
  "db_findOne (memory_deps sample_libs) [] (trim ''alice@ex.com'') PlusPassword = Returns None
   \<and> db_findOne (memory_deps sample_libs) sample_store (trim ''alice@ex.com'') PlusPassword
       = Returns (Some alice)
   \<and> isActive alice
   \<and> comparePassword (memory_deps sample_libs) alice ''Wrong12'' = Returns False
   \<and> fst (post_login (memory_deps sample_libs) []
            \<lparr>lb_email = ''alice@ex.com'', lb_password = ''Wrong12''\<rparr>)
       = \<lparr>status = 401, json_body = fail_json ''Invalid email or password''\<rparr>
   \<and> fst (post_login (memory_deps sample_libs) sample_store
            \<lparr>lb_email = ''alice@ex.com'', lb_password = ''Wrong12''\<rparr>)
       = \<lparr>status = 401, json_body = fail_json ''Invalid email or password''\<rparr>"
  using sample_login_alice
    login_failures_indistinguishable
      [of "memory_deps sample_libs" "[]"
          "\<lparr>lb_email = ''alice@ex.com'', lb_password = ''Wrong12''\<rparr>" sample_store alice]
  by (auto simp: sample_deps_simps alice_def)

text \<open>
  C9. A login request that passes the validation and whose email belongs to a user
  with \<open>isActive = false\<close> is answered 401 "Account is deactivated. Please contact
  support." after the one lookup: the password is never compared. So the answer is the
  same for any other submitted password, and the same whatever \<open>bcrypt.compare\<close> would
  have said; and it is not the answer given for an unknown email or a wrong password.
\<close>

theorem login_deactivated:
  assumes "validation_errors (loginValidation (lib D) b) = []"
    and "db_findOne D s (trim (lb_email b)) PlusPassword = Returns (Some u)"
    and "\<not> isActive u"
    and "p \<noteq> []"
  shows "post_login D s b =
           (\<lparr>status = 401,
             json_body = fail_json ''Account is deactivated. Please contact support.''\<rparr>,
            [FindOne (trim (lb_email b)) PlusPassword])
         \<and> post_login D s (b\<lparr>lb_password := p\<rparr>) = post_login D s b
         \<and> post_login (D\<lparr>lib := (lib D)\<lparr>bcrypt_compare := c\<rparr>\<rparr>) s b = post_login D s b
         \<and> fst (post_login D s b) \<noteq>
             \<lparr>status = 401, json_body = fail_json ''Invalid email or password''\<rparr>"
proof -
  have v: "trim (lb_email b) \<noteq> []" "isEmail (lib D) (trim (lb_email b))" "lb_password b \<noteq> []"
    using assms(1) by (simp_all add: loginValidation_passes)
  have 1: "post_login D s b =
           (\<lparr>status = 401,
             json_body = fail_json ''Account is deactivated. Please contact support.''\<rparr>,
            [FindOne (trim (lb_email b)) PlusPassword])"
    using assms by (simp add: post_login_def loginUser_def loginValidation_body)
  have 2: "post_login D s (b\<lparr>lb_password := p\<rparr>) = post_login D s b"
    using assms v unfolding 1
    by (simp add: post_login_def loginUser_def loginValidation_body loginValidation_passes)
  have 3: "post_login (D\<lparr>lib := (lib D)\<lparr>bcrypt_compare := c\<rparr>\<rparr>) s b = post_login D s b"
    using assms v unfolding 1
    by (simp add: post_login_def loginUser_def loginValidation_body loginValidation_passes)
  have 4: "fst (post_login D s b) \<noteq>
             \<lparr>status = 401, json_body = fail_json ''Invalid email or password''\<rparr>"
    unfolding 1 by (simp add: fail_json_def)
  show ?thesis using 1 2 3 4 by blast
qed

lemma sample_login_bob:
  "validation_errors (loginValidation sample_libs \<lparr>lb_email = ''bob@ex.com'', lb_password = ''Abcdef1''\<rparr>) = []"
  "db_findOne (memory_deps sample_libs) sample_store (trim ''bob@ex.com'') PlusPassword
     = Returns (Some bob)"
  by code_simp+

text \<open>
  The deactivated \<open>bob\<close>, with his own password and with another one.
\<close>

theorem login_deactivated_witness:
  "db_findOne (memory_deps sample_libs) sample_store (trim ''bob@ex.com'') PlusPassword
     = Returns (Some bob)
   \<and> \<not> isActive bob
   \<and> post_login (memory_deps sample_libs) sample_store
        \<lparr>lb_email = ''bob@ex.com'', lb_password = ''Abcdef1''\<rparr> =
        (\<lparr>status = 401,
          json_body = fail_json ''Account is deactivated. Please contact support.''\<rparr>,
         [FindOne ''bob@ex.com'' PlusPassword])
   \<and> post_login (memory_deps sample_libs) sample_store
        \<lparr>lb_email = ''bob@ex.com'', lb_password = ''Other99''\<rparr> =
        (\<lparr>status = 401,
          json_body = fail_json ''Account is deactivated. Please contact support.''\<rparr>,
         [FindOne ''bob@ex.com'' PlusPassword])"
  using sample_login_bob
    login_deactivated
      [of "memory_deps sample_libs" "\<lparr>lb_email = ''bob@ex.com'', lb_password = ''Abcdef1''\<rparr>"
          sample_store bob "''Other99''" sample_compare]
  by (simp add: sample_deps_simps bob_def trim_def is_space_def)

section \<open>What the responses carry\<close>

lemma registerUser_201:
  assumes "registerUser D s req = (r, cs, s')" and "status r = 201"
  shows "\<exists>u token.
           validation_errors req = []
           \<and> db_findOne D s (rb_email (req_body req)) DefaultFields = Returns None
           \<and> db_create D s ((req_body req)\<lparr>rb_role := Some (role_or_customer (rb_role (req_body req)))\<rparr>)
               = Returns (u, s')
           \<and> generateToken D (uid u) = Returns token
           \<and> json_body r =
             JObj [(''success'', JBool True), (''message'', JStr ''User registered successfully''),
                   (''token'', JStr token),
                   (''user'', JObj [(''id'', JStr (uid u)), (''name'', JStr (name u)),
                                    (''email'', JStr (email u)), (''role'', JStr (role u))])]"
  using assms
  by (fastforce simp: registerUser_def Let_def
      split: if_splits attempt.splits option.splits prod.splits)

lemma loginUser_200:
  assumes "loginUser D s req = (r, cs)" and "status r = 200"
  shows "\<exists>u token.
           validation_errors req = []
           \<and> db_findOne D s (lb_email (req_body req)) PlusPassword = Returns (Some u)
           \<and> isActive u
           \<and> comparePassword D u (lb_password (req_body req)) = Returns True
           \<and> generateToken D (uid u) = Returns token
           \<and> json_body r =
             JObj [(''success'', JBool True), (''message'', JStr ''Login successful''),
                   (''token'', JStr token),
                   (''user'', JObj [(''id'', JStr (uid u)), (''name'', JStr (name u)),
                                    (''email'', JStr (email u)), (''role'', JStr (role u))])]"
  using assms
  by (fastforce simp: loginUser_def
      split: if_splits attempt.splits option.splits prod.splits)

lemma getMe_200:
  assumes "getMe D s req_user = (r, cs)" and "status r = 200"
  shows "\<exists>u. db_findById D s (uid req_user) DefaultFields = Returns (Some u)
           \<and> json_body r =
             JObj [(''success'', JBool True),
                   (''user'',
                    JObj [(''id'', JStr (uid u)), (''name'', JStr (name u)),
                          (''email'', JStr (email u)), (''phone'', JStr (phone u)),
                          (''dateOfBirth'', JDate (dateOfBirth u)),
                          (''address'', address_json (address u)),
                          (''role'', JStr (role u)), (''isActive'', JBool (isActive u)),
                          (''createdAt'', JDate (createdAt u))])]"
  using assms
  by (fastforce simp: getMe_def split: attempt.splits option.splits)

text \<open>
  C7. A success response never carries the password digest. The 201 of \<open>registerUser\<close>
  and the 200 of \<open>loginUser\<close> carry, beside the flag, the message and the token made
  from the user id, a user object with exactly the keys id, name, email and role, read
  from the document the store returned; the 200 of \<open>getMe\<close> carries exactly id, name,
  email, phone, dateOfBirth, address, role, isActive and createdAt. No key
  \<open>password\<close> occurs at any depth, whatever the request and whatever the store holds.
\<close>

theorem success_responses_omit_digest:
  "(\<forall>r cs s'. registerUser D s req = (r, cs, s') \<and> status r = 201 \<longrightarrow>
      (\<exists>u token.
         db_create D s ((req_body req)\<lparr>rb_role := Some (role_or_customer (rb_role (req_body req)))\<rparr>)
           = Returns (u, s')
         \<and> generateToken D (uid u) = Returns token
         \<and> json_body r =
             JObj [(''success'', JBool True), (''message'', JStr ''User registered successfully''),
                   (''token'', JStr token),
                   (''user'', JObj [(''id'', JStr (uid u)), (''name'', JStr (name u)),
                                    (''email'', JStr (email u)), (''role'', JStr (role u))])])
      \<and> ''password'' \<notin> set (all_keys (json_body r)))
   \<and> (\<forall>r cs. loginUser D s lreq = (r, cs) \<and> status r = 200 \<longrightarrow>
      (\<exists>u token.
         db_findOne D s (lb_email (req_body lreq)) PlusPassword = Returns (Some u)
         \<and> generateToken D (uid u) = Returns token
         \<and> json_body r =
             JObj [(''success'', JBool True), (''message'', JStr ''Login successful''),
                   (''token'', JStr token),
                   (''user'', JObj [(''id'', JStr (uid u)), (''name'', JStr (name u)),
                                    (''email'', JStr (email u)), (''role'', JStr (role u))])])
      \<and> ''password'' \<notin> set (all_keys (json_body r)))
   \<and> (\<forall>r cs. getMe D s req_user = (r, cs) \<and> status r = 200 \<longrightarrow>
      (\<exists>u. db_findById D s (uid req_user) DefaultFields = Returns (Some u)
         \<and> json_body r =
             JObj [(''success'', JBool True),
                   (''user'',
                    JObj [(''id'', JStr (uid u)), (''name'', JStr (name u)),
                          (''email'', JStr (email u)), (''phone'', JStr (phone u)),
                          (''dateOfBirth'', JDate (dateOfBirth u)),
                          (''address'', address_json (address u)),
                          (''role'', JStr (role u)), (''isActive'', JBool (isActive u)),
                          (''createdAt'', JDate (createdAt u))])])
      \<and> ''password'' \<notin> set (all_keys (json_body r)))"
proof (intro conjI allI impI)
  fix r cs s'
  assume "registerUser D s req = (r, cs, s') \<and> status r = 201"
  then have "registerUser D s req = (r, cs, s')" and "status r = 201" by simp_all
  from registerUser_201 [OF this]
  show b: "\<exists>u token.
         db_create D s ((req_body req)\<lparr>rb_role := Some (role_or_customer (rb_role (req_body req)))\<rparr>)
           = Returns (u, s')
         \<and> generateToken D (uid u) = Returns token
         \<and> json_body r =
             JObj [(''success'', JBool True), (''message'', JStr ''User registered successfully''),
                   (''token'', JStr token),
                   (''user'', JObj [(''id'', JStr (uid u)), (''name'', JStr (name u)),
                                    (''email'', JStr (email u)), (''role'', JStr (role u))])]"
    by (elim exE conjE) (intro exI conjI, assumption+)
  then show "''password'' \<notin> set (all_keys (json_body r))"
    by (elim exE conjE) simp
next
  fix r cs
  assume "loginUser D s lreq = (r, cs) \<and> status r = 200"
  then have "loginUser D s lreq = (r, cs)" and "status r = 200" by simp_all
  from loginUser_200 [OF this]
  show b: "\<exists>u token.
         db_findOne D s (lb_email (req_body lreq)) PlusPassword = Returns (Some u)
         \<and> generateToken D (uid u) = Returns token
         \<and> json_body r =
             JObj [(''success'', JBool True), (''message'', JStr ''Login successful''),
                   (''token'', JStr token),
                   (''user'', JObj [(''id'', JStr (uid u)), (''name'', JStr (name u)),
                                    (''email'', JStr (email u)), (''role'', JStr (role u))])]"
    by (elim exE conjE) (intro exI conjI, assumption+)
  then show "''password'' \<notin> set (all_keys (json_body r))"
    by (elim exE conjE) simp
next
  fix r cs
  assume "getMe D s req_user = (r, cs) \<and> status r = 200"
  then have "getMe D s req_user = (r, cs)" and "status r = 200" by simp_all
  from getMe_200 [OF this]
  show b: "\<exists>u. db_findById D s (uid req_user) DefaultFields = Returns (Some u)
         \<and> json_body r =
             JObj [(''success'', JBool True),
                   (''user'',
                    JObj [(''id'', JStr (uid u)), (''name'', JStr (name u)),
                          (''email'', JStr (email u)), (''phone'', JStr (phone u)),
                          (''dateOfBirth'', JDate (dateOfBirth u)),
                          (''address'', address_json (address u)),
                          (''role'', JStr (role u)), (''isActive'', JBool (isActive u)),
                          (''createdAt'', JDate (createdAt u))])]"
    by (elim exE conjE) (intro exI conjI, assumption+)
  then show "''password'' \<notin> set (all_keys (json_body r))"
    by (elim exE conjE) (simp add: address_json_def)
qed

lemma sample_successes:
  "status (fst (registerUser (memory_deps sample_libs) [] (registerValidation sample_libs jane))) = 201"
  "status (fst (loginUser (memory_deps sample_libs) sample_store
                  (loginValidation sample_libs \<lparr>lb_email = ''alice@ex.com'', lb_password = ''Abcdef1''\<rparr>)))
     = 200"
  "status (fst (getMe (memory_deps sample_libs) sample_store (alice\<lparr>password := None\<rparr>))) = 200"
  by code_simp+

text \<open>
  The registration of \<open>jane\<close>, the login of \<open>alice\<close> and her profile: each succeeds, and
  none of the three responses has a key \<open>password\<close>.
\<close>

theorem success_responses_omit_digest_witness:
  "status (fst (registerUser (memory_deps sample_libs) [] (registerValidation sample_libs jane))) = 201
   \<and> ''password'' \<notin> set (all_keys (json_body (fst
         (registerUser (memory_deps sample_libs) [] (registerValidation sample_libs jane)))))
   \<and> status (fst (loginUser (memory_deps sample_libs) sample_store
                  (loginValidation sample_libs \<lparr>lb_email = ''alice@ex.com'', lb_password = ''Abcdef1''\<rparr>)))
       = 200
   \<and> ''password'' \<notin> set (all_keys (json_body (fst
         (loginUser (memory_deps sample_libs) sample_store
            (loginValidation sample_libs \<lparr>lb_email = ''alice@ex.com'', lb_password = ''Abcdef1''\<rparr>)))))
   \<and> status (fst (getMe (memory_deps sample_libs) sample_store (alice\<lparr>password := None\<rparr>))) = 200
   \<and> ''password'' \<notin> set (all_keys (json_body (fst
         (getMe (memory_deps sample_libs) sample_store (alice\<lparr>password := None\<rparr>)))))"
proof -
  let ?D = "memory_deps sample_libs"
  let ?req = "registerValidation sample_libs jane"
  let ?lreq = "loginValidation sample_libs \<lparr>lb_email = ''alice@ex.com'', lb_password = ''Abcdef1''\<rparr>"
  let ?me = "alice\<lparr>password := None\<rparr>"
  obtain r cs s' where 1: "registerUser ?D [] ?req = (r, cs, s')"
    by (cases "registerUser ?D [] ?req") auto
  obtain r2 cs2 where 2: "loginUser ?D sample_store ?lreq = (r2, cs2)"
    by (cases "loginUser ?D sample_store ?lreq") auto
  obtain r3 cs3 where 3: "getMe ?D sample_store ?me = (r3, cs3)"
    by (cases "getMe ?D sample_store ?me") auto
  have "''password'' \<notin> set (all_keys (json_body r))"
    using success_responses_omit_digest [of ?D "[]" ?req ?lreq ?me] 1 sample_successes(1)
    by auto
  moreover have "''password'' \<notin> set (all_keys (json_body r2))"
    using success_responses_omit_digest [of ?D sample_store ?req ?lreq ?me] 2 sample_successes(2)
    by auto
  moreover have "''password'' \<notin> set (all_keys (json_body r3))"
    using success_responses_omit_digest [of ?D sample_store ?req ?lreq ?me] 3 sample_successes(3)
    by auto
  ultimately show ?thesis
    using 1 2 3 sample_successes by simp
qed

lemma field_simps:
  "field k (fail_json m) = (if k = ''success'' then Some (JBool False)
                            else if k = ''message'' then Some (JStr m) else None)"
  "field k (error_json m e) = (if k = ''success'' then Some (JBool False)
                            else if k = ''message'' then Some (JStr m)
                            else if k = ''error'' then Some (JStr (err_message e)) else None)"
  "field k (JObj kvs) = map_of kvs k"
  by (simp_all add: field_def fail_json_def error_json_def)

text \<open>
  C8, as the code has it. Every error response carries \<open>success: false\<close>. The 400 that
  \<open>registerUser\<close> and \<open>loginUser\<close> send for a request that failed the validation carries
  the list \<open>errors\<close> and no \<open>message\<close>; every other error response (of the two
  controllers, of \<open>getMe\<close>, of \<open>protect\<close>, of \<open>authorize\<close> and of the error handler)
  carries a \<open>message\<close>.
\<close>

theorem error_responses_envelope:
  "(\<forall>r cs s'. registerUser D s req = (r, cs, s') \<and> status r \<noteq> 201 \<longrightarrow>
      field ''success'' (json_body r) = Some (JBool False)
      \<and> (if validation_errors req = [] then \<exists>m. field ''message'' (json_body r) = Some (JStr m)
          else status r = 400 \<and> field ''message'' (json_body r) = None
               \<and> field ''errors'' (json_body r) = Some (JArr (map verror_json (validation_errors req)))))
   \<and> (\<forall>r cs. loginUser D s lreq = (r, cs) \<and> status r \<noteq> 200 \<longrightarrow>
      field ''success'' (json_body r) = Some (JBool False)
      \<and> (if validation_errors lreq = [] then \<exists>m. field ''message'' (json_body r) = Some (JStr m)
          else status r = 400 \<and> field ''message'' (json_body r) = None
               \<and> field ''errors'' (json_body r) = Some (JArr (map verror_json (validation_errors lreq)))))
   \<and> (\<forall>r cs. getMe D s req_user = (r, cs) \<and> status r \<noteq> 200 \<longrightarrow>
      field ''success'' (json_body r) = Some (JBool False)
      \<and> (\<exists>m. field ''message'' (json_body r) = Some (JStr m)))
   \<and> (\<forall>r cs. protect D s a = (Reject r, cs) \<longrightarrow>
      field ''success'' (json_body r) = Some (JBool False)
      \<and> (\<exists>m. field ''message'' (json_body r) = Some (JStr m)))
   \<and> (\<forall>r. authorize roles u = Reject r \<longrightarrow>
      field ''success'' (json_body r) = Some (JBool False)
      \<and> (\<exists>m. field ''message'' (json_body r) = Some (JStr m)))
   \<and> field ''success'' (json_body (errorHandler node_env err)) = Some (JBool False)
   \<and> (\<exists>m. field ''message'' (json_body (errorHandler node_env err)) = Some (JStr m))"
proof (intro conjI allI impI)
  fix r cs s'
  assume a: "registerUser D s req = (r, cs, s') \<and> status r \<noteq> 201"
  then show "field ''success'' (json_body r) = Some (JBool False)"
    by (auto simp: registerUser_def Let_def field_simps
        split: if_splits attempt.splits option.splits prod.splits)
  from a show "if validation_errors req = [] then \<exists>m. field ''message'' (json_body r) = Some (JStr m)
          else status r = 400 \<and> field ''message'' (json_body r) = None
               \<and> field ''errors'' (json_body r) = Some (JArr (map verror_json (validation_errors req)))"
    by (auto simp: registerUser_def Let_def field_simps
        split: if_splits attempt.splits option.splits prod.splits)
next
  fix r cs
  assume a: "loginUser D s lreq = (r, cs) \<and> status r \<noteq> 200"
  then show "field ''success'' (json_body r) = Some (JBool False)"
    by (auto simp: loginUser_def field_simps
        split: if_splits attempt.splits option.splits prod.splits)
  from a show "if validation_errors lreq = [] then \<exists>m. field ''message'' (json_body r) = Some (JStr m)
          else status r = 400 \<and> field ''message'' (json_body r) = None
               \<and> field ''errors'' (json_body r) = Some (JArr (map verror_json (validation_errors lreq)))"
    by (auto simp: loginUser_def field_simps
        split: if_splits attempt.splits option.splits prod.splits)
next
  fix r cs
  assume a: "getMe D s req_user = (r, cs) \<and> status r \<noteq> 200"
  then show "field ''success'' (json_body r) = Some (JBool False)"
    by (auto simp: getMe_def field_simps split: attempt.splits option.splits)
  from a show "\<exists>m. field ''message'' (json_body r) = Some (JStr m)"
    by (auto simp: getMe_def field_simps split: attempt.splits option.splits)
next
  fix r cs
  assume a: "protect D s a = (Reject r, cs)"
  then show "field ''success'' (json_body r) = Some (JBool False)"
    by (auto simp: protect_def protect_catch_def field_simps
        split: if_splits attempt.splits option.splits)
  from a show "\<exists>m. field ''message'' (json_body r) = Some (JStr m)"
    by (auto simp: protect_def protect_catch_def field_simps
        split: if_splits attempt.splits option.splits)
next
  fix r
  assume a: "authorize roles u = Reject r"
  then show "field ''success'' (json_body r) = Some (JBool False)"
    by (auto simp: authorize_def field_simps split: if_splits)
  from a show "\<exists>m. field ''message'' (json_body r) = Some (JStr m)"
    by (auto simp: authorize_def field_simps split: if_splits)
next
  show "field ''success'' (json_body (errorHandler node_env err)) = Some (JBool False)"
    by (simp add: errorHandler_def field_simps)
  show "\<exists>m. field ''message'' (json_body (errorHandler node_env err)) = Some (JStr m)"
    by (simp add: errorHandler_def field_simps)
qed

text \<open>
  A registration without a name is answered 400 with \<open>success: false\<close> and the list of
  errors, and the response has no \<open>message\<close>.
\<close>

theorem validation_failure_has_no_message:
  "status (fst (post_register (memory_deps sample_libs) [] (jane\<lparr>rb_name := []\<rparr>))) = 400
   \<and> field ''success'' (json_body (fst (post_register (memory_deps sample_libs) []
                                          (jane\<lparr>rb_name := []\<rparr>)))) = Some (JBool False)
   \<and> field ''errors'' (json_body (fst (post_register (memory_deps sample_libs) []
                                         (jane\<lparr>rb_name := []\<rparr>))))
       = Some (JArr [JObj [(''msg'', JStr ''Name is required''), (''path'', JStr ''name'')],
                     JObj [(''msg'', JStr ''Name must be between 2 and 50 characters''),
                           (''path'', JStr ''name'')]])
   \<and> field ''message'' (json_body (fst (post_register (memory_deps sample_libs) []
                                          (jane\<lparr>rb_name := []\<rparr>)))) = None"
  by code_simp

lemma sample_failures:
  "validation_errors (loginValidation sample_libs \<lparr>lb_email = ''alice@ex.com'', lb_password = []\<rparr>)
     = [\<lparr>path = ''password'', msg = ''Password is required''\<rparr>]"
  "status (fst (loginUser (memory_deps sample_libs) sample_store
                  (loginValidation sample_libs \<lparr>lb_email = ''alice@ex.com'', lb_password = []\<rparr>)))
     = 400"
  "status (fst (getMe (memory_deps sample_libs) sample_store (alice\<lparr>uid := ''zz''\<rparr>))) = 404"
  "authorize [''admin''] alice =
     Reject \<lparr>status = 403,
        json_body = fail_json ''User role 'customer' is not authorized to access this route''\<rparr>"
  by code_simp+

text \<open>
  A login without a password (400, the list of errors, no message), the profile of a
  user who is no longer stored (404 with a message), and a customer at a route for
  admins (403 with a message).
\<close>

theorem error_responses_envelope_witness:
  "status (fst (loginUser (memory_deps sample_libs) sample_store
                  (loginValidation sample_libs \<lparr>lb_email = ''alice@ex.com'', lb_password = []\<rparr>)))
     = 400
   \<and> field ''message'' (json_body (fst (loginUser (memory_deps sample_libs) sample_store
                  (loginValidation sample_libs \<lparr>lb_email = ''alice@ex.com'', lb_password = []\<rparr>))))
     = None
   \<and> field ''errors'' (json_body (fst (loginUser (memory_deps sample_libs) sample_store
                  (loginValidation sample_libs \<lparr>lb_email = ''alice@ex.com'', lb_password = []\<rparr>))))
     = Some (JArr [verror_json \<lparr>path = ''password'', msg = ''Password is required''\<rparr>])
   \<and> status (fst (getMe (memory_deps sample_libs) sample_store (alice\<lparr>uid := ''zz''\<rparr>))) = 404
   \<and> (\<exists>m. field ''message'' (json_body (fst (getMe (memory_deps sample_libs) sample_store
                                                 (alice\<lparr>uid := ''zz''\<rparr>)))) = Some (JStr m))
   \<and> (\<exists>r m. authorize [''admin''] alice = Reject r \<and> status r = 403
            \<and> field ''message'' (json_body r) = Some (JStr m))"
proof -
  let ?D = "memory_deps sample_libs"
  let ?req = "registerValidation sample_libs jane"
  let ?lreq = "loginValidation sample_libs \<lparr>lb_email = ''alice@ex.com'', lb_password = []\<rparr>"
  let ?me = "alice\<lparr>uid := ''zz''\<rparr>"
  note t = error_responses_envelope [of ?D sample_store ?req ?lreq ?me None "[''admin'']" alice
      None "sample_error ''Error'' ''boom''"]
  obtain r2 cs2 where 2: "loginUser ?D sample_store ?lreq = (r2, cs2)"
    by (cases "loginUser ?D sample_store ?lreq") auto
  obtain r3 cs3 where 3: "getMe ?D sample_store ?me = (r3, cs3)"
    by (cases "getMe ?D sample_store ?me") auto
  have a: "field ''message'' (json_body r2) = None
           \<and> field ''errors'' (json_body r2)
               = Some (JArr [verror_json \<lparr>path = ''password'', msg = ''Password is required''\<rparr>])"
    using sample_failures(1,2) 2 t by auto
  have b: "\<exists>m. field ''message'' (json_body r3) = Some (JStr m)"
    using sample_failures(3) 3 t by auto
  have c: "\<exists>r m. authorize [''admin''] alice = Reject r \<and> status r = 403
            \<and> field ''message'' (json_body r) = Some (JStr m)"
    using sample_failures(4) t by auto
  show ?thesis
    using a b c 2 3 sample_failures(2,3) by simp
qed

section \<open>The age rule of the registration\<close>

text \<open>
  C5. The claim is that a registration is refused exactly when the subject is
  younger than 18 on the day of the call. The rule subtracts the years only. So a
  subject born 18 calendar years ago whose birthday is still ahead this year, who is
  17, passes the rule.
\<close>

theorem dateOfBirth_custom_year_only:
  assumes "newDate L v = Some born"
    and "year (today L) - year born = 18"
    and "month (today L) < month born \<or> (month (today L) = month born \<and> day (today L) < day born)"
  shows "dateOfBirth_custom L v \<and> spec_age (today L) born = 17"
  using assms by (simp add: dateOfBirth_custom_def spec_age_def)

lemma sample_minor:
  "newDate sample_libs ''2008-12-31'' = Some \<lparr>year = 2008, month = 12, day = 31\<rparr>"
  "today sample_libs = \<lparr>year = 2026, month = 11, day = 3\<rparr>"
  "status (fst (post_register (memory_deps sample_libs) [] (jane\<lparr>rb_dateOfBirth := ''2008-12-31''\<rparr>)))
     = 201"
  by code_simp+

text \<open>
  On 3 November 2026 a subject born on 31 December 2008 is 17; the rule accepts the
  date and the registration is answered 201.
\<close>

theorem dateOfBirth_custom_year_only_witness:
  "newDate sample_libs ''2008-12-31'' = Some \<lparr>year = 2008, month = 12, day = 31\<rparr>
   \<and> today sample_libs = \<lparr>year = 2026, month = 11, day = 3\<rparr>
   \<and> dateOfBirth_custom sample_libs ''2008-12-31''
   \<and> spec_age \<lparr>year = 2026, month = 11, day = 3\<rparr> \<lparr>year = 2008, month = 12, day = 31\<rparr> = 17
   \<and> status (fst (post_register (memory_deps sample_libs) []
                    (jane\<lparr>rb_dateOfBirth := ''2008-12-31''\<rparr>))) = 201"
  using sample_minor
    dateOfBirth_custom_year_only
      [of sample_libs "''2008-12-31''" "\<lparr>year = 2008, month = 12, day = 31\<rparr>"]
  by simp

text \<open>The half of the claim that holds: the rule refuses nobody who is 18 or older.\<close>

lemma dateOfBirth_custom_adults_pass:
  assumes "newDate L v = Some born" and "18 \<le> spec_age (today L) born"
  shows "dateOfBirth_custom L v"
  using assms by (simp add: dateOfBirth_custom_def spec_age_def split: if_splits)

section \<open>Login after registration\<close>

lemma registerValidation_passes:
  assumes "validation_errors (registerValidation L b) = []"
  shows "trim (rb_email b) \<noteq> []" and "isEmail L (trim (rb_email b))" and "rb_password b \<noteq> []"
  using assms by (simp_all add: registerValidation_def verr_Nil)

lemma registerValidation_body:
  "rb_email (req_body (registerValidation L b)) = normalizeEmail L (trim (rb_email b))"
  "rb_password (req_body (registerValidation L b)) = rb_password b"
  by (simp_all add: registerValidation_def)

lemma store_create_Returns:
  assumes "store_create L st input = Returns (u, st')"
  shows "st' = st @ [u]" and "email u = set_email (rb_email input)" and "isActive u"
    and "\<not> list_ex (\<lambda>v. email v = email u) st"
    and "\<exists>salt h. bcrypt_genSalt L 10 = Returns salt
           \<and> bcrypt_hash L (Some (rb_password input)) salt = Returns h \<and> password u = Some h"
  using assms
  by (auto simp: store_create_def Let_def pre_save_def
      split: option.splits if_splits attempt.splits prod.splits)

lemma find_append_last:
  "\<not> list_ex P st \<Longrightarrow> find P (st @ [u]) = (if P u then Some u else None)"
  by (induction st) auto

text \<open>
  C2. The claim is that after a successful registration a login with the same email
  and password succeeds. The registration chain stores the address that
  \<open>normalizeEmail\<close> returns; the login chain has no \<open>normalizeEmail\<close> and looks the
  submitted address up as it is (trimmed, and cast by the schema). Whenever the two
  differ after the cast, and no older account has the submitted address, the login
  is answered 401 "Invalid email or password" without the password being compared.
\<close>

theorem login_after_register_not_found:
  assumes "post_register (memory_deps L) st b = (r, cs, st')" and "status r = 201"
    and "set_email (trim (rb_email b)) \<noteq> set_email (normalizeEmail L (trim (rb_email b)))"
    and "\<not> list_ex (\<lambda>u. email u = set_email (trim (rb_email b))) st"
  shows "post_login (memory_deps L) st' \<lparr>lb_email = rb_email b, lb_password = rb_password b\<rparr> =
           (\<lparr>status = 401, json_body = fail_json ''Invalid email or password''\<rparr>,
            [FindOne (trim (rb_email b)) PlusPassword])"
proof -
  let ?req = "registerValidation L b"
  from assms(1,2) registerUser_201 [of "memory_deps L" st ?req r cs st']
  obtain u where v: "validation_errors ?req = []"
    and c: "store_create L st ((req_body ?req)\<lparr>rb_role := Some (role_or_customer (rb_role (req_body ?req)))\<rparr>)
              = Returns (u, st')"
    by (auto simp: post_register_def memory_deps_def)
  from store_create_Returns(1,2) [OF c]
  have st': "st' = st @ [u]" and e: "email u = set_email (normalizeEmail L (trim (rb_email b)))"
    by (simp_all add: registerValidation_body)
  have ok: "validation_errors (loginValidation L \<lparr>lb_email = rb_email b, lb_password = rb_password b\<rparr>) = []"
    using registerValidation_passes [OF v] by (simp add: loginValidation_passes)
  have "find (\<lambda>v. email v = set_email (trim (rb_email b))) st' = None"
    using assms(3,4) by (simp add: st' find_append_last e)
  then have "store_findOne st' (trim (rb_email b)) PlusPassword = Returns None"
    by (simp add: store_findOne_def)
  with ok show ?thesis
    by (simp add: post_login_def loginUser_def loginValidation_body memory_deps_def)
qed

lemma sample_dotty:
  "post_register (memory_deps sample_libs) [] dotty =
     (\<lparr>status = 201,
       json_body =
         JObj [(''success'', JBool True), (''message'', JStr ''User registered successfully''),
               (''token'', JStr ''tok:u''),
               (''user'', JObj [(''id'', JStr ''u''), (''name'', JStr ''Dot Ty''),
                                (''email'', JStr ''ab@gmail.com''), (''role'', JStr ''customer'')])]\<rparr>,
      [FindOne ''ab@gmail.com'' DefaultFields,
       Create (dotty\<lparr>rb_email := ''ab@gmail.com'', rb_role := Some ''customer''\<rparr>),
       JwtSign ''u''],
      [dot_user])"
  "set_email (trim ''a.b@gmail.com'') = ''a.b@gmail.com''"
  "set_email (normalizeEmail sample_libs (trim ''a.b@gmail.com'')) = ''ab@gmail.com''"
  "rb_email dotty = ''a.b@gmail.com''"
  "rb_password dotty = ''Abcdef1''"
  by code_simp+

text \<open>
  The registration \<open>dotty\<close> with the address \<open>a.b@gmail.com\<close> is answered 201 and stored
  under \<open>ab@gmail.com\<close>; the login with \<open>a.b@gmail.com\<close> and the same password is
  answered 401.
\<close>

theorem login_after_register_not_found_witness:
  "status (fst (post_register (memory_deps sample_libs) [] dotty)) = 201
   \<and> snd (snd (post_register (memory_deps sample_libs) [] dotty)) = [dot_user]
   \<and> email dot_user = ''ab@gmail.com''
   \<and> post_login (memory_deps sample_libs) [dot_user]
        \<lparr>lb_email = ''a.b@gmail.com'', lb_password = ''Abcdef1''\<rparr> =
        (\<lparr>status = 401, json_body = fail_json ''Invalid email or password''\<rparr>,
         [FindOne ''a.b@gmail.com'' PlusPassword])"
  using sample_dotty
    login_after_register_not_found [of sample_libs "[]" dotty _ _ "[dot_user]"]
  by (simp add: dot_user_def trim_def is_space_def)

text \<open>
  When the cast of the submitted address is the stored one, and \<open>bcrypt.compare\<close>
  accepts a password against its own hash, the login after a registration succeeds.
\<close>

lemma login_after_register_normalized:
  assumes "post_register (memory_deps L) st b = (r, cs, st')" and "status r = 201"
    and "set_email (trim (rb_email b)) = set_email (normalizeEmail L (trim (rb_email b)))"
    and "\<And>p salt h. bcrypt_hash L (Some p) salt = Returns h
           \<Longrightarrow> bcrypt_compare L p (Some h) = Returns True"
  shows "status (fst (post_login (memory_deps L) st'
                       \<lparr>lb_email = rb_email b, lb_password = rb_password b\<rparr>)) = 200"
proof -
  let ?req = "registerValidation L b"
  from assms(1,2) registerUser_201 [of "memory_deps L" st ?req r cs st']
  obtain u token where v: "validation_errors ?req = []"
    and c: "store_create L st ((req_body ?req)\<lparr>rb_role := Some (role_or_customer (rb_role (req_body ?req)))\<rparr>)
              = Returns (u, st')"
    and g: "generateToken (memory_deps L) (uid u) = Returns token"
    by (auto simp: post_register_def memory_deps_def)
  from store_create_Returns [OF c]
  have st': "st' = st @ [u]" and e: "email u = set_email (normalizeEmail L (trim (rb_email b)))"
    and act: "isActive u" and fresh: "\<not> list_ex (\<lambda>v. email v = email u) st"
    and h: "\<exists>salt h. bcrypt_hash L (Some (rb_password b)) salt = Returns h \<and> password u = Some h"
    by (auto simp: registerValidation_body)
  from h assms(4) have cmp: "bcrypt_compare L (rb_password b) (password u) = Returns True"
    by auto
  have ok: "validation_errors (loginValidation L \<lparr>lb_email = rb_email b, lb_password = rb_password b\<rparr>) = []"
    using registerValidation_passes [OF v] by (simp add: loginValidation_passes)
  have "find (\<lambda>v. email v = set_email (trim (rb_email b))) st' = Some u"
    using fresh assms(3) e by (simp add: st' find_append_last)
  then have "store_findOne st' (trim (rb_email b)) PlusPassword = Returns (Some u)"
    by (simp add: store_findOne_def select_def)
  with ok act cmp g show ?thesis
    by (simp add: post_login_def loginUser_def loginValidation_body memory_deps_def
        comparePassword_def)
qed

end
